theory Spec2Isabelle
  imports Complex_Main
begin

section \<open>Data model\<close>

text \<open>
  Documents are the Mongoose schemas of \<^verbatim>\<open>models/Event.js\<close>,
  \<^verbatim>\<open>models/Notification.js\<close> and the photo schema. An ObjectId is modelled by the
  string that \<^verbatim>\<open>toString()\<close> gives: 24 hexadecimal digits, the letters in lower
  case. A top-level document is stored under its \<^verbatim>\<open>_id\<close> (the key of the
  collection); a sub-document of an array (an invitee) carries its \<^verbatim>\<open>_id\<close> as a
  field. An optional path of a schema is an \<open>option\<close>, \<open>None\<close> standing for
  \<^verbatim>\<open>undefined\<close>. Timestamps with a default (\<^verbatim>\<open>invitedAt\<close>, \<^verbatim>\<open>createdAt\<close>,
  \<^verbatim>\<open>uploadedAt\<close>) and the paths no controller modelled here reads
  (\<^verbatim>\<open>coverImage\<close>, \<^verbatim>\<open>isPrivate\<close>, the file metadata of a photo) are left out.

  Identities that the application itself wrote are in that spelling: \<^verbatim>\<open>req.user.id\<close>,
  the ids of the routes, and the \<^verbatim>\<open>ExternalImageId\<close> of a registered face, which
  \<^verbatim>\<open>indexFace\<close> is given as \<^verbatim>\<open>user.id\<close>; a lookup by one of them finds the document
  or nothing. The \<^verbatim>\<open>userId\<close> of an invitee spec is any string of the request body,
  and Mongoose casts it (\<open>castObjectId\<close> below).
\<close>

type_synonym oid = string

text \<open>
  An exception: \<^verbatim>\<open>new AppError(message, statusCode)\<close>, or any other thrown value,
  known by its \<^verbatim>\<open>name\<close> (\<^verbatim>\<open>TypeError\<close>, \<^verbatim>\<open>ValidationError\<close>, ...).
\<close>

datatype error = AppError string nat | Thrown string

record user =
  u_name :: string
  u_email :: string

record invitee =
  inv_id :: oid
  inv_user :: "oid option"
  inv_email :: "string option"
  inv_status :: string
  inviteCode :: "string option"

record event =
  ev_name :: string
  ev_description :: "string option"
  ev_date :: string
  ev_location :: "string option"
  creator :: oid
  invitees :: "invitee list"

text \<open>The bounding box as Rekognition gives it: \<^verbatim>\<open>{Width, Height, Left, Top}\<close>.\<close>

record boundingBox =
  bb_Width :: real
  bb_Height :: real
  bb_Left :: real
  bb_Top :: real

text \<open>
  The schema of a detected face declares the paths \<^verbatim>\<open>width\<close>, \<^verbatim>\<open>height\<close>,
  \<^verbatim>\<open>left\<close> and \<^verbatim>\<open>top\<close> under \<^verbatim>\<open>boundingBox\<close>, each an optional number.
\<close>

record storedBoundingBox =
  sb_width :: "real option"
  sb_height :: "real option"
  sb_left :: "real option"
  sb_top :: "real option"

record detectedFace =
  faceId :: string
  df_user :: oid
  df_boundingBox :: storedBoundingBox
  confidence :: real

record photo =
  ph_path :: string
  ph_event :: oid
  uploader :: oid
  detectedFaces :: "detectedFace list"
  isProcessed :: bool

text \<open>The argument of \<^verbatim>\<open>Notification.create\<close>, and the document it makes.\<close>

record notificationData =
  d_recipient :: "oid option"
  d_email :: "string option"
  d_type :: string
  d_title :: string
  d_message :: string
  d_relatedEvent :: "oid option"
  d_relatedPhoto :: "oid option"

record notification =
  n_id :: oid
  recipient :: "oid option"
  n_email :: "string option"
  n_type :: string
  title :: string
  message :: string
  relatedEvent :: "oid option"
  relatedPhoto :: "oid option"
  isRead :: bool
  isSent :: bool

record emailContent =
  to :: "string option"
  subject :: string
  html :: string

subsection \<open>The face registry's answers\<close>

record face =
  FaceId :: string
  ExternalImageId :: string
  BoundingBox :: boundingBox

record faceMatch =
  Similarity :: real
  Face :: face

record detectResponse =
  FaceDetails :: "boundingBox list option"

record searchResponse =
  FaceMatches :: "faceMatch list option"

section \<open>The world outside the controllers\<close>

text \<open>
  Every call that leaves the process is written to \<open>calls\<close>, in order, whether it
  succeeds or not. \<open>clock\<close> counts the questions put to the environment.
\<close>

datatype call =
    SaveEvent oid event
  | SavePhoto oid photo
  | CreateNotification notificationData
  | SaveNotification notification
  | SendEmail emailContent
  | DetectFaces string
  | SearchFaces string

record world =
  users :: "oid \<rightharpoonup> user"
  events :: "oid \<rightharpoonup> event"
  photos :: "oid \<rightharpoonup> photo"
  notifications :: "notification list"
  calls :: "call list"
  clock :: nat

text \<open>
  What the controllers cannot decide is an oracle of the environment, asked at the
  current \<open>clock\<close>: the random \<^verbatim>\<open>uuidv4()\<close>, the ObjectId Mongoose gives a new
  document, whether a write to the store is accepted (\<open>None\<close>) or throws, whether
  SendGrid accepts a message, and what Rekognition answers (\<open>None\<close>: the call or the
  read of the file threw).
\<close>

record env =
  uuidv4 :: "nat \<Rightarrow> string"
  newObjectId :: "nat \<Rightarrow> oid"
  store_write :: "nat \<Rightarrow> error option"
  sgMail_send :: "nat \<Rightarrow> emailContent \<Rightarrow> error option"
  rekognition_detectFaces :: "nat \<Rightarrow> string \<Rightarrow> detectResponse option"
  rekognition_searchFacesByImage :: "nat \<Rightarrow> string \<Rightarrow> searchResponse option"
  toLocaleDateString :: "string \<Rightarrow> string"

definition asked :: "call \<Rightarrow> world \<Rightarrow> world" where
  "asked c w = w\<lparr>calls := calls w @ [c], clock := Suc (clock w)\<rparr>"

text \<open>JavaScript truthiness of an optional string: \<^verbatim>\<open>undefined\<close> and \<^verbatim>\<open>''\<close> are falsy.\<close>

fun truthy :: "string option \<Rightarrow> bool" where
  "truthy None = False"
| "truthy (Some s) = (s \<noteq> [])"

text \<open>\<^verbatim>\<open>Array.prototype.findIndex\<close>; \<open>None\<close> is its \<^verbatim>\<open>-1\<close>.\<close>

fun findIndex :: "('a \<Rightarrow> bool) \<Rightarrow> 'a list \<Rightarrow> nat option" where
  "findIndex P [] = None"
| "findIndex P (x # xs) = (if P x then Some 0 else map_option Suc (findIndex P xs))"

text \<open>\<^verbatim>\<open>event.save()\<close>: one write of the whole document.\<close>

definition event_save :: "env \<Rightarrow> oid \<Rightarrow> event \<Rightarrow> world \<Rightarrow> error option \<times> world" where
  "event_save env eid ev w =
     (case store_write env (clock w) of
        Some e \<Rightarrow> (Some e, asked (SaveEvent eid ev) w)
      | None \<Rightarrow> (None, asked (SaveEvent eid ev) (w\<lparr>events := (events w)(eid \<mapsto> ev)\<rparr>)))"

section \<open>eventController.js\<close>

subsection \<open>addInvitees\<close>

record inviteeSpec =
  userId :: "string option"
  email :: "string option"

text \<open>
  Mongoose's cast of a string to an ObjectId: a string of 24 hexadecimal digits, in
  either case, is the ObjectId whose \<^verbatim>\<open>toString()\<close> has the letters in lower case;
  any other string is refused with a \<^verbatim>\<open>CastError\<close>. (Drivers that also read a
  string of 12 characters as 12 bytes are not modelled.)
\<close>

definition isHexDigit :: "char \<Rightarrow> bool" where
  "isHexDigit c \<longleftrightarrow> c \<in> set ''0123456789abcdefABCDEF''"

definition toLowerHex :: "char \<Rightarrow> char" where
  "toLowerHex c =
     (if c = CHR ''A'' then CHR ''a'' else if c = CHR ''B'' then CHR ''b''
      else if c = CHR ''C'' then CHR ''c'' else if c = CHR ''D'' then CHR ''d''
      else if c = CHR ''E'' then CHR ''e'' else if c = CHR ''F'' then CHR ''f'' else c)"

definition castObjectId :: "string \<Rightarrow> oid option" where
  "castObjectId s =
     (if length s = 24 \<and> list_all isHexDigit s then Some (map toLowerHex s) else None)"

text \<open>\<^verbatim>\<open>User.findById\<close> on a string: the cast may throw; then the document or \<^verbatim>\<open>null\<close>.\<close>

definition User_findById :: "(oid \<rightharpoonup> user) \<Rightarrow> string \<Rightarrow> error + user option" where
  "User_findById us s =
     (case castObjectId s of None \<Rightarrow> Inl (Thrown ''CastError'') | Some i \<Rightarrow> Inr (us i))"

text \<open>
  One turn of the loop \<^verbatim>\<open>for (const invitee of invitees)\<close> on the invitee array in
  memory; the first component of the result is the error the turn throws, if any.
  \<^verbatim>\<open>uuidv4()\<close> is called in every turn, before anything is looked at. The test
  \<^verbatim>\<open>inv.user.toString() === invitee.userId\<close> compares the stored identity with the
  string of the request as it was sent; the pushed sub-document gets its \<^verbatim>\<open>_id\<close>
  from Mongoose, and its \<^verbatim>\<open>user\<close> is the string of the request cast to an ObjectId.
\<close>

fun addInvitee_step :: "env \<Rightarrow> (oid \<rightharpoonup> user) \<Rightarrow> inviteeSpec \<Rightarrow> invitee list \<times> nat
    \<Rightarrow> error option \<times> invitee list \<times> nat" where
  "addInvitee_step env us invitee (invs, clk) =
     (let code = uuidv4 env clk; clk1 = Suc clk in
      if truthy (userId invitee) then
        (let uid = the (userId invitee) in
         case User_findById us uid of
           Inl e \<Rightarrow> (Some e, invs, clk1)
         | Inr None \<Rightarrow> (None, invs, clk1)
         | Inr (Some usr) \<Rightarrow>
             if list_ex (\<lambda>ivt. inv_user ivt = Some uid) invs then (None, invs, clk1)
             else (None, invs @ [\<lparr>inv_id = newObjectId env clk1, inv_user = castObjectId uid,
                                   inv_email = Some (u_email usr), inv_status = ''pending'',
                                   inviteCode = Some code\<rparr>], Suc clk1))
      else if truthy (email invitee) then
        (let em = the (email invitee) in
         if list_ex (\<lambda>ivt. inv_email ivt = Some em) invs then (None, invs, clk1)
         else (None, invs @ [\<lparr>inv_id = newObjectId env clk1, inv_user = None,
                               inv_email = Some em, inv_status = ''pending'',
                               inviteCode = Some code\<rparr>], Suc clk1))
      else (None, invs, clk1))"

text \<open>The loop: a turn that throws ends it.\<close>

fun addInvitees_loop :: "env \<Rightarrow> (oid \<rightharpoonup> user) \<Rightarrow> inviteeSpec list \<Rightarrow> invitee list \<times> nat
    \<Rightarrow> error option \<times> invitee list \<times> nat" where
  "addInvitees_loop env us [] st = (None, st)"
| "addInvitees_loop env us (invitee # rest) st =
     (case addInvitee_step env us invitee st of
        (Some e, st') \<Rightarrow> (Some e, st')
      | (None, st') \<Rightarrow> addInvitees_loop env us rest st')"

text \<open>
  The handler. \<open>req_user\<close> is \<^verbatim>\<open>req.user.id\<close> (\<open>None\<close>: no \<^verbatim>\<open>req.user\<close>, so that
  reading \<^verbatim>\<open>req.user.id\<close> throws a TypeError, which the \<^verbatim>\<open>catch\<close> hands to
  \<^verbatim>\<open>next\<close>); \<open>body_invitees\<close> is \<^verbatim>\<open>req.body.invitees\<close> (\<open>None\<close>: missing or not an
  array). The result is the error given to \<^verbatim>\<open>next\<close> or the event of the response.
  An error thrown in the loop goes to \<^verbatim>\<open>next\<close> before \<^verbatim>\<open>event.save()\<close> is reached.
\<close>

definition addInvitees :: "env \<Rightarrow> oid option \<Rightarrow> oid \<Rightarrow> inviteeSpec list option \<Rightarrow> world \<Rightarrow> (error + event) \<times> world" where
  "addInvitees env req_user params_id body_invitees w =
     (case body_invitees of
        None \<Rightarrow> (Inl (AppError ''Please provide invitees array'' 400), w)
      | Some specs \<Rightarrow>
          (case events w params_id of
             None \<Rightarrow> (Inl (AppError (''Event not found with id of '' @ params_id) 404), w)
           | Some ev \<Rightarrow>
               (case req_user of
                  None \<Rightarrow> (Inl (Thrown ''TypeError''), w)
                | Some uid \<Rightarrow>
                    if creator ev \<noteq> uid
                    then (Inl (AppError ''Not authorized to add invitees to this event'' 401), w)
                    else
                      (case addInvitees_loop env (users w) specs (invitees ev, clock w) of
                         (Some e, invs', clk') \<Rightarrow> (Inl e, w\<lparr>clock := clk'\<rparr>)
                       | (None, invs', clk') \<Rightarrow>
                           (let ev' = ev\<lparr>invitees := invs'\<rparr>
                            in case event_save env params_id ev' (w\<lparr>clock := clk'\<rparr>) of
                                 (Some e, w') \<Rightarrow> (Inl e, w')
                               | (None, w') \<Rightarrow> (Inr ev', w'))))))"

subsection \<open>respondToInvite\<close>

text \<open>
  \<open>body_status\<close> and \<open>body_inviteCode\<close> are \<^verbatim>\<open>req.body.status\<close> and
  \<^verbatim>\<open>req.body.inviteCode\<close>. The status and the binding are set on the document in
  memory, which is then saved once.
\<close>

definition respondToInvite :: "env \<Rightarrow> oid option \<Rightarrow> oid \<Rightarrow> string option \<Rightarrow> string option \<Rightarrow> world \<Rightarrow> (error + event) \<times> world" where
  "respondToInvite env req_user params_id body_status body_inviteCode w =
     (if \<not> truthy body_status \<or> the body_status \<notin> set [''accepted'', ''declined'']
      then (Inl (AppError ''Please provide valid status (accepted/declined)'' 400), w)
      else if \<not> truthy body_inviteCode
      then (Inl (AppError ''Please provide invite code'' 400), w)
      else
        (case events w params_id of
           None \<Rightarrow> (Inl (AppError (''Event not found with id of '' @ params_id) 404), w)
         | Some ev \<Rightarrow>
             (case findIndex (\<lambda>ivt. inviteCode ivt = body_inviteCode) (invitees ev) of
                None \<Rightarrow> (Inl (AppError ''Invalid invite code'' 400), w)
              | Some i \<Rightarrow>
                  (let inv1 = (invitees ev ! i)\<lparr>inv_status := the body_status\<rparr> in
                   if inv_user inv1 = None \<and> req_user = None
                   then (Inl (Thrown ''TypeError''), w)
                   else
                     (let inv2 = (if inv_user inv1 = None then inv1\<lparr>inv_user := req_user\<rparr> else inv1);
                          ev' = ev\<lparr>invitees := (invitees ev)[i := inv2]\<rparr>
                      in case event_save env params_id ev' w of
                           (Some e, w') \<Rightarrow> (Inl e, w')
                         | (None, w') \<Rightarrow> (Inr ev', w'))))))"

section \<open>inviteController.js and the notification controller\<close>

subsection \<open>verifyInvitation\<close>

record eventView =
  v_id :: oid
  v_name :: string
  v_date :: string
  v_location :: "string option"
  v_description :: "string option"
  v_creator :: string

record invitationView =
  iv_id :: oid
  iv_status :: string
  iv_inviteCode :: "string option"

record verifyData =
  vd_event :: eventView
  vd_invitation :: invitationView

text \<open>The projection \<^verbatim>\<open>.select('-invitees.user -invitees.email')\<close> of the query.\<close>

definition select_invitees :: "event \<Rightarrow> event" where
  "select_invitees ev =
     ev\<lparr>invitees := map (\<lambda>ivt. ivt\<lparr>inv_user := None, inv_email := None\<rparr>) (invitees ev)\<rparr>"

text \<open>
  \<open>code\<close> is the route parameter, a string. \<^verbatim>\<open>populate('creator', 'name')\<close> leaves
  \<^verbatim>\<open>null\<close> for a creator that is no user, and \<^verbatim>\<open>event.creator.name\<close> then throws
  while the response is built.
\<close>

definition verifyInvitation :: "oid \<Rightarrow> string \<Rightarrow> world \<Rightarrow> (error + verifyData) \<times> world" where
  "verifyInvitation eventId code w =
     (case map_option select_invitees (events w eventId) of
        None \<Rightarrow> (Inl (AppError ''Event not found'' 404), w)
      | Some ev \<Rightarrow>
          (case find (\<lambda>ivt. inviteCode ivt = Some code) (invitees ev) of
             None \<Rightarrow> (Inl (AppError ''Invalid invitation code'' 400), w)
           | Some invitation \<Rightarrow>
               (case users w (creator ev) of
                  None \<Rightarrow> (Inl (Thrown ''TypeError''), w)
                | Some cu \<Rightarrow>
                    (Inr \<lparr>vd_event = \<lparr>v_id = eventId, v_name = ev_name ev, v_date = ev_date ev,
                                      v_location = ev_location ev,
                                      v_description = ev_description ev,
                                      v_creator = u_name cu\<rparr>,
                          vd_invitation = \<lparr>iv_id = inv_id invitation,
                                           iv_status = inv_status invitation,
                                           iv_inviteCode = inviteCode invitation\<rparr>\<rparr>, w))))"

subsection \<open>createNotification\<close>

text \<open>\<^verbatim>\<open>sendEmail\<close> of \<^verbatim>\<open>config/sendgrid.js\<close>: logs and rethrows what SendGrid throws.\<close>

definition sendEmail :: "env \<Rightarrow> emailContent \<Rightarrow> world \<Rightarrow> error option \<times> world" where
  "sendEmail env msg w = (sgMail_send env (clock w) msg, asked (SendEmail msg) w)"

text \<open>\<^verbatim>\<open>Notification.create\<close>: the schema's defaults are \<^verbatim>\<open>isRead = isSent = false\<close>.\<close>

definition notification_doc :: "oid \<Rightarrow> notificationData \<Rightarrow> notification" where
  "notification_doc i d =
     \<lparr>n_id = i, recipient = d_recipient d, n_email = d_email d, n_type = d_type d,
      title = d_title d, message = d_message d, relatedEvent = d_relatedEvent d,
      relatedPhoto = d_relatedPhoto d, isRead = False, isSent = False\<rparr>"

definition Notification_create :: "env \<Rightarrow> notificationData \<Rightarrow> world \<Rightarrow> (error + notification) \<times> world" where
  "Notification_create env d w =
     (case store_write env (clock w) of
        Some e \<Rightarrow> (Inl e, asked (CreateNotification d) w)
      | None \<Rightarrow>
          (let n = notification_doc (newObjectId env (clock w)) d
           in (Inr n, asked (CreateNotification d) (w\<lparr>notifications := notifications w @ [n]\<rparr>))))"

definition notification_save :: "env \<Rightarrow> notification \<Rightarrow> world \<Rightarrow> error option \<times> world" where
  "notification_save env n w =
     (case store_write env (clock w) of
        Some e \<Rightarrow> (Some e, asked (SaveNotification n) w)
      | None \<Rightarrow>
          (None, asked (SaveNotification n)
             (w\<lparr>notifications := map (\<lambda>m. if n_id m = n_id n then n else m) (notifications w)\<rparr>)))"

text \<open>
  \<^verbatim>\<open>sendNotificationEmail\<close>: its whole body is a \<^verbatim>\<open>try\<close> whose \<^verbatim>\<open>catch\<close> only logs,
  so it gives back the notification object, changed in memory or not, and never an
  error. (The line breaks of the message template are left out.)
\<close>

definition notificationEmail :: "notification \<Rightarrow> emailContent" where
  "notificationEmail n =
     \<lparr>to = n_email n, subject = title n,
      html = ''<h1>'' @ title n @ ''</h1><p>'' @ message n @ ''</p>''\<rparr>"

definition sendNotificationEmail :: "env \<Rightarrow> notification \<Rightarrow> world \<Rightarrow> notification \<times> world" where
  "sendNotificationEmail env n w =
     (case sendEmail env (notificationEmail n) w of
        (Some e, w1) \<Rightarrow> (n, w1)
      | (None, w1) \<Rightarrow>
          (let n' = n\<lparr>isSent := True\<rparr> in (n', snd (notification_save env n' w1))))"

definition createNotification :: "env \<Rightarrow> notificationData \<Rightarrow> world \<Rightarrow> (error + notification) \<times> world" where
  "createNotification env d w =
     (case Notification_create env d w of
        (Inl e, w1) \<Rightarrow> (Inl e, w1)
      | (Inr n, w1) \<Rightarrow>
          if truthy (n_email n)
          then (let (n', w2) = sendNotificationEmail env n w1 in (Inr n', w2))
          else (Inr n, w1))"

subsection \<open>sendInvitations\<close>

record sentEntry =
  s_id :: string
  s_email :: "string option"

record failedEntry =
  f_id :: string
  f_email :: "string option"
  f_reason :: string

text \<open>A template literal prints a missing value as \<^verbatim>\<open>undefined\<close>.\<close>

fun interpolate :: "string option \<Rightarrow> string" where
  "interpolate None = ''undefined''"
| "interpolate (Some s) = s"

text \<open>The message of one invitation (the line breaks and the style of the link left out).\<close>

definition invitationEmail :: "env \<Rightarrow> string \<Rightarrow> string \<Rightarrow> oid \<Rightarrow> event \<Rightarrow> user \<Rightarrow> invitee \<Rightarrow> emailContent" where
  "invitationEmail env protocol host eid ev cu ivt =
     (let inviteUrl = protocol @ ''://'' @ host @ ''/events/'' @ eid @ ''/join?code=''
                        @ interpolate (inviteCode ivt)
      in \<lparr>to = inv_email ivt,
          subject = ''You're invited to '' @ ev_name ev,
          html = ''<h1>You're invited to '' @ ev_name ev @ ''</h1>''
            @ ''<p><strong>Date:</strong> '' @ toLocaleDateString env (ev_date ev) @ ''</p>''
            @ ''<p><strong>Location:</strong> '' @ interpolate (ev_location ev) @ ''</p>''
            @ ''<p><strong>Description:</strong> ''
            @ (if truthy (ev_description ev) then the (ev_description ev)
               else ''No description provided'') @ ''</p>''
            @ ''<p><strong>Host:</strong> '' @ u_name cu @ ''</p>''
            @ ''<p>Click the link below to view the event and respond:</p>''
            @ ''<a href='' @ [CHR 0x22] @ inviteUrl @ [CHR 0x22] @ ''>View Invitation</a>''\<rparr>)"

definition inviteNotification :: "oid \<Rightarrow> event \<Rightarrow> user \<Rightarrow> oid \<Rightarrow> notificationData" where
  "inviteNotification eid ev cu u =
     \<lparr>d_recipient = Some u, d_email = None, d_type = ''event_invite'',
      d_title = ''You're invited to '' @ ev_name ev,
      d_message = u_name cu @ '' has invited you to '' @ ev_name ev,
      d_relatedEvent = Some eid, d_relatedPhoto = None\<rparr>"

text \<open>
  One turn of \<^verbatim>\<open>for (const inviteeId of inviteeIds)\<close>: the inner \<^verbatim>\<open>try\<close> covers the
  email and the notification, and its \<^verbatim>\<open>catch\<close> reports the invitee as failed.
\<close>

fun sendInvitation_step :: "env \<Rightarrow> string \<Rightarrow> string \<Rightarrow> oid \<Rightarrow> event \<Rightarrow> user \<Rightarrow> string
    \<Rightarrow> sentEntry list \<times> failedEntry list \<times> world \<Rightarrow> sentEntry list \<times> failedEntry list \<times> world" where
  "sendInvitation_step env protocol host eid ev cu inviteeId (sent, failed, w) =
     (case find (\<lambda>ivt. inv_id ivt = inviteeId) (invitees ev) of
        None \<Rightarrow>
          (sent, failed @ [\<lparr>f_id = inviteeId, f_email = None,
                            f_reason = ''Invitee not found in event''\<rparr>], w)
      | Some ivt \<Rightarrow>
          (case sendEmail env (invitationEmail env protocol host eid ev cu ivt) w of
             (Some e, w1) \<Rightarrow>
               (sent, failed @ [\<lparr>f_id = inviteeId, f_email = inv_email ivt,
                                 f_reason = ''Failed to send email''\<rparr>], w1)
           | (None, w1) \<Rightarrow>
               (case inv_user ivt of
                  None \<Rightarrow> (sent @ [\<lparr>s_id = inviteeId, s_email = inv_email ivt\<rparr>], failed, w1)
                | Some u \<Rightarrow>
                    (case createNotification env (inviteNotification eid ev cu u) w1 of
                       (Inl e, w2) \<Rightarrow>
                         (sent, failed @ [\<lparr>f_id = inviteeId, f_email = inv_email ivt,
                                           f_reason = ''Failed to send email''\<rparr>], w2)
                     | (Inr n, w2) \<Rightarrow>
                         (sent @ [\<lparr>s_id = inviteeId, s_email = inv_email ivt\<rparr>], failed, w2)))))"

text \<open>
  The handler; \<open>body_inviteeIds\<close> is \<^verbatim>\<open>req.body.inviteeIds\<close> (\<open>None\<close>: missing or not
  an array). The creator is populated before the comparison with \<^verbatim>\<open>req.user.id\<close>.
\<close>

definition sendInvitations :: "env \<Rightarrow> oid option \<Rightarrow> string \<Rightarrow> string \<Rightarrow> oid \<Rightarrow> string list option \<Rightarrow> world
    \<Rightarrow> (error + sentEntry list \<times> failedEntry list) \<times> world" where
  "sendInvitations env req_user protocol host eventId body_inviteeIds w =
     (case events w eventId of
        None \<Rightarrow> (Inl (AppError (''Event not found with id of '' @ eventId) 404), w)
      | Some ev \<Rightarrow>
          (case users w (creator ev) of
             None \<Rightarrow> (Inl (Thrown ''TypeError''), w)
           | Some cu \<Rightarrow>
               (case req_user of
                  None \<Rightarrow> (Inl (Thrown ''TypeError''), w)
                | Some uid \<Rightarrow>
                    if creator ev \<noteq> uid
                    then (Inl (AppError ''Not authorized to send invitations for this event'' 401), w)
                    else
                      (case body_inviteeIds of
                         None \<Rightarrow> (Inl (AppError ''Please provide invitee IDs'' 400), w)
                       | Some ids \<Rightarrow>
                           if ids = [] then (Inl (AppError ''Please provide invitee IDs'' 400), w)
                           else
                             (let (sent, failed, w') =
                                    fold (sendInvitation_step env protocol host eventId ev cu) ids ([], [], w)
                              in (Inr (sent, failed), w'))))))"

section \<open>The photo controller: processPhoto\<close>

text \<open>\<^verbatim>\<open>detectFaces\<close> and \<^verbatim>\<open>searchFaces\<close> of \<^verbatim>\<open>utils/rekognition.js\<close>.\<close>

definition detectFaces :: "env \<Rightarrow> string \<Rightarrow> world \<Rightarrow> (error + detectResponse) \<times> world" where
  "detectFaces env imagePath w =
     (case rekognition_detectFaces env (clock w) imagePath of
        None \<Rightarrow> (Inl (AppError ''Failed to detect faces'' 500), asked (DetectFaces imagePath) w)
      | Some r \<Rightarrow> (Inr r, asked (DetectFaces imagePath) w))"

definition searchFaces :: "env \<Rightarrow> string \<Rightarrow> world \<Rightarrow> (error + searchResponse) \<times> world" where
  "searchFaces env imagePath w =
     (case rekognition_searchFacesByImage env (clock w) imagePath of
        None \<Rightarrow> (Inl (AppError ''Failed to search faces'' 500), asked (SearchFaces imagePath) w)
      | Some r \<Rightarrow> (Inr r, asked (SearchFaces imagePath) w))"

definition photo_save :: "env \<Rightarrow> oid \<Rightarrow> photo \<Rightarrow> world \<Rightarrow> error option \<times> world" where
  "photo_save env pid p w =
     (case store_write env (clock w) of
        Some e \<Rightarrow> (Some e, asked (SavePhoto pid p) w)
      | None \<Rightarrow> (None, asked (SavePhoto pid p) (w\<lparr>photos := (photos w)(pid \<mapsto> p)\<rparr>)))"

text \<open>
  The face pushed for a match. \<^verbatim>\<open>boundingBox: match.Face.BoundingBox\<close> assigns the
  object of Rekognition, whose keys are \<^verbatim>\<open>Width\<close>, \<^verbatim>\<open>Height\<close>, \<^verbatim>\<open>Left\<close> and
  \<^verbatim>\<open>Top\<close>, to a path of the schema; Mongoose keeps of an object the keys that the
  schema declares, by their exact names, and drops the others.
\<close>

definition boundingBox_object :: "boundingBox \<Rightarrow> (string \<times> real) list" where
  "boundingBox_object b =
     [(''Width'', bb_Width b), (''Height'', bb_Height b), (''Left'', bb_Left b), (''Top'', bb_Top b)]"

definition cast_boundingBox :: "(string \<times> real) list \<Rightarrow> storedBoundingBox" where
  "cast_boundingBox obj =
     \<lparr>sb_width = map_of obj ''width'', sb_height = map_of obj ''height'',
      sb_left = map_of obj ''left'', sb_top = map_of obj ''top''\<rparr>"

definition matchedFace :: "faceMatch \<Rightarrow> detectedFace" where
  "matchedFace m =
     \<lparr>faceId = FaceId (Face m), df_user = ExternalImageId (Face m),
      df_boundingBox = cast_boundingBox (boundingBox_object (BoundingBox (Face m))),
      confidence = Similarity m\<rparr>"

definition taggedNotification :: "oid \<Rightarrow> event \<Rightarrow> oid \<Rightarrow> faceMatch \<Rightarrow> notificationData" where
  "taggedNotification eid ev pid m =
     \<lparr>d_recipient = Some (ExternalImageId (Face m)), d_email = None, d_type = ''photo_tagged'',
      d_title = ''You were recognized in a photo'',
      d_message = ''You were recognized in a photo from the event: '' @ ev_name ev,
      d_relatedEvent = Some eid, d_relatedPhoto = Some pid\<rparr>"

text \<open>
  The loop \<^verbatim>\<open>for (const match of searchResult.FaceMatches)\<close> on the photo in memory.
  An error thrown by \<^verbatim>\<open>createNotification\<close> leaves the loop (and the function).
\<close>

fun processMatches :: "env \<Rightarrow> oid \<Rightarrow> event \<Rightarrow> oid \<Rightarrow> faceMatch list \<Rightarrow> photo \<Rightarrow> world \<Rightarrow> (error + photo) \<times> world" where
  "processMatches env eid ev pid [] p w = (Inr p, w)"
| "processMatches env eid ev pid (m # ms) p w =
     (case users w (ExternalImageId (Face m)) of
        None \<Rightarrow> processMatches env eid ev pid ms p w
      | Some usr \<Rightarrow>
          (let p1 = p\<lparr>detectedFaces := detectedFaces p @ [matchedFace m]\<rparr> in
           case createNotification env (taggedNotification eid ev pid m) w of
             (Inl e, w1) \<Rightarrow> (Inl e, w1)
           | (Inr n, w1) \<Rightarrow> processMatches env eid ev pid ms p1 w1))"

text \<open>
  \<^verbatim>\<open>processPhoto\<close> returns nothing and its \<^verbatim>\<open>catch\<close> only logs: the result is the
  world it leaves. (The two \<^verbatim>\<open>populate\<close> calls on the event change nothing that is
  read afterwards.)
\<close>

definition processPhoto :: "env \<Rightarrow> oid \<Rightarrow> world \<Rightarrow> world" where
  "processPhoto env photoId w =
     (case photos w photoId of
        None \<Rightarrow> w
      | Some p \<Rightarrow>
          (case events w (ph_event p) of
             None \<Rightarrow> w
           | Some ev \<Rightarrow>
               (case detectFaces env (ph_path p) w of
                  (Inl e, w1) \<Rightarrow> w1
                | (Inr detectResult, w1) \<Rightarrow>
                    if FaceDetails detectResult = None \<or> the (FaceDetails detectResult) = []
                    then snd (photo_save env photoId (p\<lparr>isProcessed := True\<rparr>) w1)
                    else
                      (case searchFaces env (ph_path p) w1 of
                         (Inl e, w2) \<Rightarrow> w2
                       | (Inr searchResult, w2) \<Rightarrow>
                           (case (if FaceMatches searchResult \<noteq> None \<and> the (FaceMatches searchResult) \<noteq> []
                                  then processMatches env (ph_event p) ev photoId
                                         (the (FaceMatches searchResult)) p w2
                                  else (Inr p, w2)) of
                              (Inl e, w3) \<Rightarrow> w3
                            | (Inr p', w3) \<Rightarrow>
                                snd (photo_save env photoId (p'\<lparr>isProcessed := True\<rparr>) w3))))))"

section \<open>The vocabulary of the specification\<close>

text \<open>
  The status an error is answered with (the status code of an \<^verbatim>\<open>AppError\<close>; the
  error handler answers 500 where there is none), and the error kinds: 400 is
  \<open>InvalidInput\<close>, 401 \<open>Unauthorized\<close>, 404 \<open>NotFound\<close>.
\<close>

datatype errorKind = InvalidInput | Unauthorized | NotFound | OtherError

fun errorKind_of :: "error \<Rightarrow> errorKind" where
  "errorKind_of (AppError msg code) =
     (if code = 400 then InvalidInput else if code = 401 then Unauthorized
      else if code = 404 then NotFound else OtherError)"
| "errorKind_of (Thrown nm) = OtherError"

text \<open>The user identities bound in an invitee list, the emails of its entries without one, and its invite codes.\<close>

definition bound_users :: "invitee list \<Rightarrow> oid list" where
  "bound_users invs = List.map_filter inv_user invs"

definition unbound_emails :: "invitee list \<Rightarrow> string list" where
  "unbound_emails invs = List.map_filter inv_email (filter (\<lambda>ivt. inv_user ivt = None) invs)"

definition issued_codes :: "invitee list \<Rightarrow> string list" where
  "issued_codes invs = List.map_filter inviteCode invs"

text \<open>At most one entry per user identity, and at most one per email among the entries with no user identity.\<close>

definition one_entry_per_invitee :: "invitee list \<Rightarrow> bool" where
  "one_entry_per_invitee invs \<longleftrightarrow> distinct (bound_users invs) \<and> distinct (unbound_emails invs)"

text \<open>What a notification document says, without its \<^verbatim>\<open>_id\<close> and its two flags.\<close>

definition notification_data :: "notification \<Rightarrow> notificationData" where
  "notification_data n =
     \<lparr>d_recipient = recipient n, d_email = n_email n, d_type = n_type n, d_title = title n,
      d_message = message n, d_relatedEvent = relatedEvent n, d_relatedPhoto = relatedPhoto n\<rparr>"

text \<open>The invitee list stored for an event (empty when there is no such event).\<close>

definition stored_invitees :: "world \<Rightarrow> oid \<Rightarrow> invitee list" where
  "stored_invitees w eid = (case events w eid of None \<Rightarrow> [] | Some ev \<Rightarrow> invitees ev)"

section \<open>A small world to run the controllers in\<close>

text \<open>
  Two users; event \<open>e1\<close> of \<open>u1\<close> with one invitee bound to \<open>u2\<close> and one known by
  email only; event \<open>e2\<close> of \<open>u1\<close> with no invitee yet; one photo of \<open>e1\<close>. In
  \<open>example_env\<close> every write and every message is accepted, the registry sees one
  face and matches it with \<open>u2\<close> at 95 and with an identity that is no user at 91.
\<close>

definition example_box :: boundingBox where
  "example_box = \<lparr>bb_Width = 1/4, bb_Height = 1/2, bb_Left = 1/10, bb_Top = 1/5\<rparr>"

definition example_match1 :: faceMatch where
  "example_match1 =
     \<lparr>Similarity = 95, Face = \<lparr>FaceId = ''f1'', ExternalImageId = ''u2'', BoundingBox = example_box\<rparr>\<rparr>"

definition example_match2 :: faceMatch where
  "example_match2 =
     \<lparr>Similarity = 91, Face = \<lparr>FaceId = ''f2'', ExternalImageId = ''gone'', BoundingBox = example_box\<rparr>\<rparr>"

definition example_env :: env where
  "example_env =
     \<lparr>uuidv4 = (\<lambda>t. replicate (Suc t) CHR ''c''),
      newObjectId = (\<lambda>t. replicate (Suc t) CHR ''i''),
      store_write = (\<lambda>t. None),
      sgMail_send = (\<lambda>t msg. None),
      rekognition_detectFaces = (\<lambda>t p. Some \<lparr>FaceDetails = Some [example_box]\<rparr>),
      rekognition_searchFacesByImage =
        (\<lambda>t p. Some \<lparr>FaceMatches = Some [example_match1, example_match2]\<rparr>),
      toLocaleDateString = (\<lambda>d. d)\<rparr>"

definition example_event1 :: event where
  "example_event1 =
     \<lparr>ev_name = ''Party'', ev_description = None, ev_date = ''2025-01-01'',
      ev_location = Some ''Hall'', creator = ''u1'',
      invitees =
        [\<lparr>inv_id = ''i1'', inv_user = Some ''u2'', inv_email = Some ''bob@x.com'',
          inv_status = ''pending'', inviteCode = Some ''k1''\<rparr>,
         \<lparr>inv_id = ''i2'', inv_user = None, inv_email = Some ''cy@x.com'',
          inv_status = ''pending'', inviteCode = Some ''k2''\<rparr>]\<rparr>"

definition example_event2 :: event where
  "example_event2 =
     \<lparr>ev_name = ''Picnic'', ev_description = Some ''Bring food'', ev_date = ''2025-06-01'',
      ev_location = None, creator = ''u1'', invitees = []\<rparr>"

definition example_photo :: photo where
  "example_photo =
     \<lparr>ph_path = ''uploads/p1.jpg'', ph_event = ''e1'', uploader = ''u1'',
      detectedFaces = [], isProcessed = False\<rparr>"

definition example_world :: world where
  "example_world =
     \<lparr>users = [''u1'' \<mapsto> \<lparr>u_name = ''Ann'', u_email = ''ann@x.com''\<rparr>,
               ''u2'' \<mapsto> \<lparr>u_name = ''Bob'', u_email = ''bob@x.com''\<rparr>],
      events = [''e1'' \<mapsto> example_event1, ''e2'' \<mapsto> example_event2],
      photos = [''p1'' \<mapsto> example_photo],
      notifications = [], calls = [], clock = 0\<rparr>"

definition example_data :: notificationData where
  "example_data =
     \<lparr>d_recipient = None, d_email = Some ''a@x.com'', d_type = ''system'', d_title = ''T'',
      d_message = ''M'', d_relatedEvent = None, d_relatedPhoto = None\<rparr>"

text \<open>
  The same with ObjectIds written out: the users \<open>a...a1\<close> (Ann) and \<open>b...b2\<close> (Bob),
  and event \<open>e...e1\<close> of Ann, whose only invitee is the entry bound to Bob.
\<close>

definition hex_event :: event where
  "hex_event =
     \<lparr>ev_name = ''Party'', ev_description = None, ev_date = ''2025-01-01'',
      ev_location = Some ''Hall'', creator = ''aaaaaaaaaaaaaaaaaaaaaaa1'',
      invitees =
        [\<lparr>inv_id = ''ddddddddddddddddddddddd1'', inv_user = Some ''bbbbbbbbbbbbbbbbbbbbbbb2'',
          inv_email = Some ''bob@x.com'', inv_status = ''pending'', inviteCode = Some ''k1''\<rparr>]\<rparr>"

definition hex_world :: world where
  "hex_world =
     \<lparr>users = [''aaaaaaaaaaaaaaaaaaaaaaa1'' \<mapsto> \<lparr>u_name = ''Ann'', u_email = ''ann@x.com''\<rparr>,
               ''bbbbbbbbbbbbbbbbbbbbbbb2'' \<mapsto> \<lparr>u_name = ''Bob'', u_email = ''bob@x.com''\<rparr>],
      events = [''eeeeeeeeeeeeeeeeeeeeeee1'' \<mapsto> hex_event],
      photos = Map.empty, notifications = [], calls = [], clock = 0\<rparr>"

section \<open>Facts about the stored invitee list\<close>

lemma stored_invitees_clock: "stored_invitees (w\<lparr>clock := c\<rparr>) eid = stored_invitees w eid"
  by (simp add: stored_invitees_def)

lemma stored_invitees_event_save:
  "stored_invitees (snd (event_save env eid ev w)) eid' =
     (if store_write env (clock w) = None \<and> eid' = eid then invitees ev else stored_invitees w eid')"
  by (auto simp: event_save_def stored_invitees_def asked_def split: option.splits)

section \<open>Facts about addInvitees\<close>

lemma set_map_filter: "set (List.map_filter f xs) = {y. \<exists>x\<in>set xs. f x = Some y}"
  by (induction xs) (auto split: option.splits)

lemma map_filter_snoc:
  "List.map_filter f (xs @ [x]) = List.map_filter f xs @ (case f x of None \<Rightarrow> [] | Some y \<Rightarrow> [y])"
  by (induction xs) (auto split: option.splits)

lemma castObjectId_nonempty: "castObjectId s = Some u \<Longrightarrow> s \<noteq> []"
  by (auto simp: castObjectId_def split: if_splits)


text \<open>
  A user who is found, under a string that no entry of the list equals: an entry is
  pushed, bound to the identity the string is cast to.
\<close>

lemma step_pushes_user:
  assumes "castObjectId s = Some u" and "us u = Some usr"
    and "\<not> list_ex (\<lambda>ivt. inv_user ivt = Some s) invs"
  shows "addInvitee_step env us \<lparr>userId = Some s, email = em\<rparr> (invs, clk)
           = (None, invs @ [\<lparr>inv_id = newObjectId env (Suc clk), inv_user = Some u,
                               inv_email = Some (u_email usr), inv_status = ''pending'',
                               inviteCode = Some (uuidv4 env clk)\<rparr>], Suc (Suc clk))"
  using assms castObjectId_nonempty[OF assms(1)] by (simp add: Let_def User_findById_def)

declare addInvitee_step.simps [simp del]


declare addInvitees_loop.simps [simp del]

lemma addInvitees_creator:
  assumes "events w pid = Some ev" and "creator ev = rid"
  shows "addInvitees env (Some rid) pid (Some specs) w =
     (case addInvitees_loop env (users w) specs (invitees ev, clock w) of
        (Some e, invs', clk') \<Rightarrow> (Inl e, w\<lparr>clock := clk'\<rparr>)
      | (None, invs', clk') \<Rightarrow>
          (case store_write env clk' of
             Some e \<Rightarrow> (Inl e, asked (SaveEvent pid (ev\<lparr>invitees := invs'\<rparr>)) (w\<lparr>clock := clk'\<rparr>))
           | None \<Rightarrow>
               (Inr (ev\<lparr>invitees := invs'\<rparr>),
                asked (SaveEvent pid (ev\<lparr>invitees := invs'\<rparr>))
                  (w\<lparr>clock := clk', events := (events w)(pid \<mapsto> ev\<lparr>invitees := invs'\<rparr>)\<rparr>))))"
  using assms
  by (simp add: addInvitees_def event_save_def Let_def split: prod.splits option.splits)

text \<open>
  The call of the creator with one spec, naming by another spelling a user who is
  invited already.
\<close>

lemma addInvitees_respelled:
  assumes "events w pid = Some ev" and "creator ev = rid"
    and "castObjectId s = Some u" and "users w u = Some usr"
    and "\<not> list_ex (\<lambda>ivt. inv_user ivt = Some s) (invitees ev)"
    and "store_write env (Suc (Suc (clock w))) = None"
  shows "stored_invitees (snd (addInvitees env (Some rid) pid (Some [\<lparr>userId = Some s, email = em\<rparr>]) w)) pid
           = invitees ev @ [\<lparr>inv_id = newObjectId env (Suc (clock w)), inv_user = Some u,
                               inv_email = Some (u_email usr), inv_status = ''pending'',
                               inviteCode = Some (uuidv4 env (clock w))\<rparr>]"
proof -
  have step: "addInvitee_step env (users w) \<lparr>userId = Some s, email = em\<rparr> (invitees ev, clock w)
           = (None, invitees ev @ [\<lparr>inv_id = newObjectId env (Suc (clock w)), inv_user = Some u,
                               inv_email = Some (u_email usr), inv_status = ''pending'',
                               inviteCode = Some (uuidv4 env (clock w))\<rparr>], Suc (Suc (clock w)))"
    using assms(3,4,5) by (rule step_pushes_user)
  show ?thesis
    using assms(6)
    by (simp add: addInvitees_creator[OF assms(1,2)] addInvitees_loop.simps step
        stored_invitees_def asked_def)
qed


section \<open>The claims about addInvitees\<close>

text \<open>
  C2 does not hold of the code. Let the user \<open>u\<close> have an entry in the invitee list
  of an event, and let the creator add one spec whose \<^verbatim>\<open>userId\<close> is a string \<open>s\<close>
  that Mongoose casts to \<open>u\<close> and that is the identity of no entry (the ObjectId of
  \<open>u\<close> with its letters in upper case is such a string). \<^verbatim>\<open>User.findById\<close> finds the
  user, the test for an entry of that user compares the stored identities with \<open>s\<close>
  and finds none, and an entry bound to \<open>u\<close> is pushed. So, when the store accepts the
  write, the stored list has one entry of \<open>u\<close> more than before, two at least, and
  does not hold one entry per user identity any more.
\<close>

theorem addInvitees_second_entry_for_respelled_user:
  assumes "events w pid = Some ev" and "creator ev = rid"
    and "castObjectId s = Some u" and "users w u = Some usr"
    and "list_ex (\<lambda>ivt. inv_user ivt = Some u) (invitees ev)"
    and "\<not> list_ex (\<lambda>ivt. inv_user ivt = Some s) (invitees ev)"
    and "store_write env (Suc (Suc (clock w))) = None"
  shows "length (filter (\<lambda>ivt. inv_user ivt = Some u)
            (stored_invitees (snd (addInvitees env (Some rid) pid
               (Some [\<lparr>userId = Some s, email = em\<rparr>]) w)) pid))
           = Suc (length (filter (\<lambda>ivt. inv_user ivt = Some u) (stored_invitees w pid))) \<and>
         2 \<le> length (filter (\<lambda>ivt. inv_user ivt = Some u)
            (stored_invitees (snd (addInvitees env (Some rid) pid
               (Some [\<lparr>userId = Some s, email = em\<rparr>]) w)) pid)) \<and>
         \<not> one_entry_per_invitee
            (stored_invitees (snd (addInvitees env (Some rid) pid
               (Some [\<lparr>userId = Some s, email = em\<rparr>]) w)) pid)"
proof -
  let ?new = "stored_invitees (snd (addInvitees env (Some rid) pid
               (Some [\<lparr>userId = Some s, email = em\<rparr>]) w)) pid"
  let ?ivt = "\<lparr>inv_id = newObjectId env (Suc (clock w)), inv_user = Some u,
               inv_email = Some (u_email usr), inv_status = ''pending'',
               inviteCode = Some (uuidv4 env (clock w))\<rparr>"
  have new: "?new = invitees ev @ [?ivt]"
    by (rule addInvitees_respelled[OF assms(1,2,3,4,6,7)])
  have old: "stored_invitees w pid = invitees ev"
    using assms(1) by (simp add: stored_invitees_def)
  have some: "filter (\<lambda>ivt. inv_user ivt = Some u) (invitees ev) \<noteq> []"
    using assms(5) by (simp add: list_ex_iff filter_empty_conv)
  then have pos: "1 \<le> length (filter (\<lambda>ivt. inv_user ivt = Some u) (invitees ev))"
    by (cases "filter (\<lambda>ivt. inv_user ivt = Some u) (invitees ev)") auto
  have 1: "length (filter (\<lambda>ivt. inv_user ivt = Some u) ?new)
             = Suc (length (filter (\<lambda>ivt. inv_user ivt = Some u) (stored_invitees w pid)))"
    by (simp add: new old)
  have 2: "2 \<le> length (filter (\<lambda>ivt. inv_user ivt = Some u) ?new)"
    using pos by (simp add: new)
  have "u \<in> set (bound_users (invitees ev))"
    using assms(5) by (auto simp: bound_users_def set_map_filter list_ex_iff)
  then have 3: "\<not> one_entry_per_invitee ?new"
    by (simp add: new one_entry_per_invitee_def bound_users_def map_filter_snoc)
  show ?thesis using 1 2 3 by blast
qed

text \<open>
  C7 does not hold of the code, on the same input. The spec naming the invited user
  \<open>u\<close> by another spelling is not skipped: the stored list is the one before
  followed by a new pending entry of \<open>u\<close>, whose code is the one \<^verbatim>\<open>uuidv4()\<close> gave in
  this call, so that the codes of the list are those before and this new one, and the
  entries of \<open>u\<close> are not the ones before.
\<close>

theorem addInvitees_new_code_for_respelled_user:
  assumes "events w pid = Some ev" and "creator ev = rid"
    and "castObjectId s = Some u" and "users w u = Some usr"
    and "list_ex (\<lambda>ivt. inv_user ivt = Some u) (invitees ev)"
    and "\<not> list_ex (\<lambda>ivt. inv_user ivt = Some s) (invitees ev)"
    and "store_write env (Suc (Suc (clock w))) = None"
  shows "stored_invitees (snd (addInvitees env (Some rid) pid
            (Some [\<lparr>userId = Some s, email = em\<rparr>]) w)) pid
           = stored_invitees w pid
               @ [\<lparr>inv_id = newObjectId env (Suc (clock w)), inv_user = Some u,
                   inv_email = Some (u_email usr), inv_status = ''pending'',
                   inviteCode = Some (uuidv4 env (clock w))\<rparr>] \<and>
         issued_codes (stored_invitees (snd (addInvitees env (Some rid) pid
            (Some [\<lparr>userId = Some s, email = em\<rparr>]) w)) pid)
           = issued_codes (stored_invitees w pid) @ [uuidv4 env (clock w)] \<and>
         filter (\<lambda>ivt. inv_user ivt = Some u)
            (stored_invitees (snd (addInvitees env (Some rid) pid
               (Some [\<lparr>userId = Some s, email = em\<rparr>]) w)) pid)
           \<noteq> filter (\<lambda>ivt. inv_user ivt = Some u) (stored_invitees w pid)"
proof -
  let ?new = "stored_invitees (snd (addInvitees env (Some rid) pid
               (Some [\<lparr>userId = Some s, email = em\<rparr>]) w)) pid"
  let ?ivt = "\<lparr>inv_id = newObjectId env (Suc (clock w)), inv_user = Some u,
               inv_email = Some (u_email usr), inv_status = ''pending'',
               inviteCode = Some (uuidv4 env (clock w))\<rparr>"
  have old: "stored_invitees w pid = invitees ev"
    using assms(1) by (simp add: stored_invitees_def)
  have new: "?new = stored_invitees w pid @ [?ivt]"
    unfolding old by (rule addInvitees_respelled[OF assms(1,2,3,4,6,7)])
  have codes: "issued_codes ?new = issued_codes (stored_invitees w pid) @ [uuidv4 env (clock w)]"
    by (simp add: new issued_codes_def map_filter_snoc)
  have changed: "filter (\<lambda>ivt. inv_user ivt = Some u) ?new
                   \<noteq> filter (\<lambda>ivt. inv_user ivt = Some u) (stored_invitees w pid)"
    by (simp add: new)
  show ?thesis using new codes changed by blast
qed



text \<open>
  Bob, \<open>b...b2\<close>, is invited to the event; the creator adds the \<^verbatim>\<open>userId\<close>
  \<open>B...B2\<close>: two entries bound to \<open>b...b2\<close>.
\<close>

theorem addInvitees_second_entry_for_respelled_user_witness:
  "events hex_world ''eeeeeeeeeeeeeeeeeeeeeee1'' = Some hex_event \<and>
   creator hex_event = ''aaaaaaaaaaaaaaaaaaaaaaa1'' \<and>
   castObjectId ''BBBBBBBBBBBBBBBBBBBBBBB2'' = Some ''bbbbbbbbbbbbbbbbbbbbbbb2'' \<and>
   users hex_world ''bbbbbbbbbbbbbbbbbbbbbbb2'' = Some \<lparr>u_name = ''Bob'', u_email = ''bob@x.com''\<rparr> \<and>
   list_ex (\<lambda>ivt. inv_user ivt = Some ''bbbbbbbbbbbbbbbbbbbbbbb2'') (invitees hex_event) \<and>
   \<not> list_ex (\<lambda>ivt. inv_user ivt = Some ''BBBBBBBBBBBBBBBBBBBBBBB2'') (invitees hex_event) \<and>
   store_write example_env (Suc (Suc (clock hex_world))) = None \<and>
   map inv_user (stored_invitees hex_world ''eeeeeeeeeeeeeeeeeeeeeee1'') = [Some ''bbbbbbbbbbbbbbbbbbbbbbb2''] \<and>
   map inv_user (stored_invitees (snd (addInvitees example_env (Some ''aaaaaaaaaaaaaaaaaaaaaaa1'') ''eeeeeeeeeeeeeeeeeeeeeee1''
        (Some [\<lparr>userId = Some ''BBBBBBBBBBBBBBBBBBBBBBB2'', email = None\<rparr>]) hex_world)) ''eeeeeeeeeeeeeeeeeeeeeee1'')
     = [Some ''bbbbbbbbbbbbbbbbbbbbbbb2'', Some ''bbbbbbbbbbbbbbbbbbbbbbb2''] \<and>
   \<not> one_entry_per_invitee (stored_invitees (snd (addInvitees example_env (Some ''aaaaaaaaaaaaaaaaaaaaaaa1'') ''eeeeeeeeeeeeeeeeeeeeeee1''
        (Some [\<lparr>userId = Some ''BBBBBBBBBBBBBBBBBBBBBBB2'', email = None\<rparr>]) hex_world)) ''eeeeeeeeeeeeeeeeeeeeeee1'')"
proof -
  have h1: "events hex_world ''eeeeeeeeeeeeeeeeeeeeeee1'' = Some hex_event" by (simp add: hex_world_def)
  have h2: "creator hex_event = ''aaaaaaaaaaaaaaaaaaaaaaa1''" by (simp add: hex_event_def)
  have h3: "castObjectId ''BBBBBBBBBBBBBBBBBBBBBBB2'' = Some ''bbbbbbbbbbbbbbbbbbbbbbb2''"
    by (simp add: castObjectId_def isHexDigit_def toLowerHex_def)
  have h4: "users hex_world ''bbbbbbbbbbbbbbbbbbbbbbb2'' = Some \<lparr>u_name = ''Bob'', u_email = ''bob@x.com''\<rparr>" by (simp add: hex_world_def)
  have h5: "list_ex (\<lambda>ivt. inv_user ivt = Some ''bbbbbbbbbbbbbbbbbbbbbbb2'') (invitees hex_event)"
    by (simp add: hex_event_def)
  have h6: "\<not> list_ex (\<lambda>ivt. inv_user ivt = Some ''BBBBBBBBBBBBBBBBBBBBBBB2'') (invitees hex_event)"
    by (simp add: hex_event_def)
  have h7: "store_write example_env (Suc (Suc (clock hex_world))) = None"
    by (simp add: example_env_def)
  have old: "map inv_user (stored_invitees hex_world ''eeeeeeeeeeeeeeeeeeeeeee1'') = [Some ''bbbbbbbbbbbbbbbbbbbbbbb2'']"
    by (simp add: stored_invitees_def hex_world_def hex_event_def)
  have new: "map inv_user (stored_invitees (snd (addInvitees example_env (Some ''aaaaaaaaaaaaaaaaaaaaaaa1'') ''eeeeeeeeeeeeeeeeeeeeeee1''
        (Some [\<lparr>userId = Some ''BBBBBBBBBBBBBBBBBBBBBBB2'', email = None\<rparr>]) hex_world)) ''eeeeeeeeeeeeeeeeeeeeeee1'')
     = [Some ''bbbbbbbbbbbbbbbbbbbbbbb2'', Some ''bbbbbbbbbbbbbbbbbbbbbbb2'']"
    by (simp add: addInvitees_def addInvitees_loop.simps addInvitee_step.simps User_findById_def castObjectId_def
        isHexDigit_def toLowerHex_def event_save_def asked_def stored_invitees_def hex_world_def
        hex_event_def example_env_def Let_def)
  have bad: "\<not> one_entry_per_invitee (stored_invitees (snd (addInvitees example_env (Some ''aaaaaaaaaaaaaaaaaaaaaaa1'') ''eeeeeeeeeeeeeeeeeeeeeee1''
        (Some [\<lparr>userId = Some ''BBBBBBBBBBBBBBBBBBBBBBB2'', email = None\<rparr>]) hex_world)) ''eeeeeeeeeeeeeeeeeeeeeee1'')"
    using addInvitees_second_entry_for_respelled_user[OF h1 h2 h3 h4 h5 h6 h7] by blast
  show ?thesis using h1 h2 h3 h4 h5 h6 h7 old new bad by blast
qed

text \<open>The same call: Bob's entry with the code \<open>k1\<close> is followed by a second one with the code \<open>c\<close>.\<close>

theorem addInvitees_new_code_for_respelled_user_witness:
  "events hex_world ''eeeeeeeeeeeeeeeeeeeeeee1'' = Some hex_event \<and>
   creator hex_event = ''aaaaaaaaaaaaaaaaaaaaaaa1'' \<and>
   castObjectId ''BBBBBBBBBBBBBBBBBBBBBBB2'' = Some ''bbbbbbbbbbbbbbbbbbbbbbb2'' \<and>
   users hex_world ''bbbbbbbbbbbbbbbbbbbbbbb2'' = Some \<lparr>u_name = ''Bob'', u_email = ''bob@x.com''\<rparr> \<and>
   list_ex (\<lambda>ivt. inv_user ivt = Some ''bbbbbbbbbbbbbbbbbbbbbbb2'') (invitees hex_event) \<and>
   \<not> list_ex (\<lambda>ivt. inv_user ivt = Some ''BBBBBBBBBBBBBBBBBBBBBBB2'') (invitees hex_event) \<and>
   store_write example_env (Suc (Suc (clock hex_world))) = None \<and>
   stored_invitees hex_world ''eeeeeeeeeeeeeeeeeeeeeee1''
     = [\<lparr>inv_id = ''ddddddddddddddddddddddd1'', inv_user = Some ''bbbbbbbbbbbbbbbbbbbbbbb2'',
         inv_email = Some ''bob@x.com'', inv_status = ''pending'', inviteCode = Some ''k1''\<rparr>] \<and>
   stored_invitees (snd (addInvitees example_env (Some ''aaaaaaaaaaaaaaaaaaaaaaa1'') ''eeeeeeeeeeeeeeeeeeeeeee1''
        (Some [\<lparr>userId = Some ''BBBBBBBBBBBBBBBBBBBBBBB2'', email = Some ''bob@x.com''\<rparr>]) hex_world)) ''eeeeeeeeeeeeeeeeeeeeeee1''
     = [\<lparr>inv_id = ''ddddddddddddddddddddddd1'', inv_user = Some ''bbbbbbbbbbbbbbbbbbbbbbb2'',
         inv_email = Some ''bob@x.com'', inv_status = ''pending'', inviteCode = Some ''k1''\<rparr>,
        \<lparr>inv_id = ''ii'', inv_user = Some ''bbbbbbbbbbbbbbbbbbbbbbb2'',
         inv_email = Some ''bob@x.com'', inv_status = ''pending'', inviteCode = Some ''c''\<rparr>] \<and>
   issued_codes (stored_invitees (snd (addInvitees example_env (Some ''aaaaaaaaaaaaaaaaaaaaaaa1'') ''eeeeeeeeeeeeeeeeeeeeeee1''
        (Some [\<lparr>userId = Some ''BBBBBBBBBBBBBBBBBBBBBBB2'', email = Some ''bob@x.com''\<rparr>]) hex_world)) ''eeeeeeeeeeeeeeeeeeeeeee1'')
     = [''k1'', ''c'']"
proof -
  have h1: "events hex_world ''eeeeeeeeeeeeeeeeeeeeeee1'' = Some hex_event" by (simp add: hex_world_def)
  have h2: "creator hex_event = ''aaaaaaaaaaaaaaaaaaaaaaa1''" by (simp add: hex_event_def)
  have h3: "castObjectId ''BBBBBBBBBBBBBBBBBBBBBBB2'' = Some ''bbbbbbbbbbbbbbbbbbbbbbb2''"
    by (simp add: castObjectId_def isHexDigit_def toLowerHex_def)
  have h4: "users hex_world ''bbbbbbbbbbbbbbbbbbbbbbb2'' = Some \<lparr>u_name = ''Bob'', u_email = ''bob@x.com''\<rparr>" by (simp add: hex_world_def)
  have h5: "list_ex (\<lambda>ivt. inv_user ivt = Some ''bbbbbbbbbbbbbbbbbbbbbbb2'') (invitees hex_event)"
    by (simp add: hex_event_def)
  have h6: "\<not> list_ex (\<lambda>ivt. inv_user ivt = Some ''BBBBBBBBBBBBBBBBBBBBBBB2'') (invitees hex_event)"
    by (simp add: hex_event_def)
  have h7: "store_write example_env (Suc (Suc (clock hex_world))) = None"
    by (simp add: example_env_def)
  have old: "stored_invitees hex_world ''eeeeeeeeeeeeeeeeeeeeeee1''
     = [\<lparr>inv_id = ''ddddddddddddddddddddddd1'', inv_user = Some ''bbbbbbbbbbbbbbbbbbbbbbb2'',
         inv_email = Some ''bob@x.com'', inv_status = ''pending'', inviteCode = Some ''k1''\<rparr>]"
    by (simp add: stored_invitees_def hex_world_def hex_event_def)
  have e: "newObjectId example_env (Suc (clock hex_world)) = ''ii'' \<and>
      uuidv4 example_env (clock hex_world) = ''c'' \<and> u_email \<lparr>u_name = ''Bob'', u_email = ''bob@x.com''\<rparr> = ''bob@x.com''"
    by (simp add: example_env_def hex_world_def)
  note t = addInvitees_new_code_for_respelled_user[OF h1 h2 h3 h4 h5 h6 h7,
      of "Some ''bob@x.com''", unfolded old]
  have new: "stored_invitees (snd (addInvitees example_env (Some ''aaaaaaaaaaaaaaaaaaaaaaa1'') ''eeeeeeeeeeeeeeeeeeeeeee1''
        (Some [\<lparr>userId = Some ''BBBBBBBBBBBBBBBBBBBBBBB2'', email = Some ''bob@x.com''\<rparr>]) hex_world)) ''eeeeeeeeeeeeeeeeeeeeeee1''
     = [\<lparr>inv_id = ''ddddddddddddddddddddddd1'', inv_user = Some ''bbbbbbbbbbbbbbbbbbbbbbb2'',
         inv_email = Some ''bob@x.com'', inv_status = ''pending'', inviteCode = Some ''k1''\<rparr>,
        \<lparr>inv_id = ''ii'', inv_user = Some ''bbbbbbbbbbbbbbbbbbbbbbb2'',
         inv_email = Some ''bob@x.com'', inv_status = ''pending'', inviteCode = Some ''c''\<rparr>]"
    using t e by simp
  have codes: "issued_codes (stored_invitees (snd (addInvitees example_env (Some ''aaaaaaaaaaaaaaaaaaaaaaa1'') ''eeeeeeeeeeeeeeeeeeeeeee1''
        (Some [\<lparr>userId = Some ''BBBBBBBBBBBBBBBBBBBBBBB2'', email = Some ''bob@x.com''\<rparr>]) hex_world)) ''eeeeeeeeeeeeeeeeeeeeeee1'')
     = [''k1'', ''c'']"
    using t e by (simp add: issued_codes_def)
  show ?thesis using h1 h2 h3 h4 h5 h6 h7 old new codes by blast
qed



section \<open>The claims about respondToInvite\<close>

lemma findIndex_None: "findIndex P xs = None \<longleftrightarrow> (\<forall>x\<in>set xs. \<not> P x)"
  by (induction xs) auto

lemma findIndex_Some: "findIndex P xs = Some i \<Longrightarrow> i < length xs \<and> P (xs ! i)"
  by (induction xs arbitrary: i) (auto split: if_splits)

lemma snd_save_result:
  "snd (case r of (Some e, w') \<Rightarrow> (Inl e, w') | (None, w') \<Rightarrow> (Inr x, w')) = snd r"
  by (cases r; cases "fst r") auto

lemma respondToInvite_snd:
  "snd (respondToInvite env ru pid st code w) = w \<or>
   (\<exists>ev i0 ivt. events w pid = Some ev \<and> i0 < length (invitees ev) \<and>
      inv_id ivt = inv_id (invitees ev ! i0) \<and>
      (inv_user (invitees ev ! i0) \<noteq> None \<longrightarrow> inv_user ivt = inv_user (invitees ev ! i0)) \<and>
      snd (respondToInvite env ru pid st code w)
        = snd (event_save env pid (ev\<lparr>invitees := (invitees ev)[i0 := ivt]\<rparr>) w))"
proof (cases "events w pid")
  case None
  then show ?thesis by (simp add: respondToInvite_def)
next
  case (Some ev)
  note ev = this
  show ?thesis
  proof (cases "findIndex (\<lambda>ivt. inviteCode ivt = code) (invitees ev)")
    case None
    then show ?thesis using ev by (simp add: respondToInvite_def)
  next
    case (Some i0)
    note fi = this
    have i0: "i0 < length (invitees ev)" using findIndex_Some[OF fi] by simp
    let ?inv1 = "(invitees ev ! i0)\<lparr>inv_status := the st\<rparr>"
    let ?inv2 = "if inv_user ?inv1 = None then ?inv1\<lparr>inv_user := ru\<rparr> else ?inv1"
    have u: "inv_id ?inv2 = inv_id (invitees ev ! i0) \<and>
        (inv_user (invitees ev ! i0) \<noteq> None \<longrightarrow> inv_user ?inv2 = inv_user (invitees ev ! i0))"
      by simp
    have "snd (respondToInvite env ru pid st code w) = w \<or>
          snd (respondToInvite env ru pid st code w)
            = snd (event_save env pid (ev\<lparr>invitees := (invitees ev)[i0 := ?inv2]\<rparr>) w)"
      by (simp add: respondToInvite_def ev fi Let_def snd_save_result)
    then show ?thesis using ev i0 u by blast
  qed
qed

lemma respondToInvite_stored:
  "stored_invitees (snd (respondToInvite env ru pid st code w)) eid = stored_invitees w eid \<or>
   (\<exists>i0 ivt. i0 < length (stored_invitees w eid) \<and>
      stored_invitees (snd (respondToInvite env ru pid st code w)) eid = (stored_invitees w eid)[i0 := ivt] \<and>
      inv_id ivt = inv_id (stored_invitees w eid ! i0) \<and>
      (inv_user (stored_invitees w eid ! i0) \<noteq> None \<longrightarrow> inv_user ivt = inv_user (stored_invitees w eid ! i0)))"
proof -
  consider (same) "snd (respondToInvite env ru pid st code w) = w"
    | (saved) ev i0 ivt where "events w pid = Some ev" "i0 < length (invitees ev)"
        "inv_id ivt = inv_id (invitees ev ! i0)"
        "inv_user (invitees ev ! i0) \<noteq> None \<longrightarrow> inv_user ivt = inv_user (invitees ev ! i0)"
        "snd (respondToInvite env ru pid st code w)
           = snd (event_save env pid (ev\<lparr>invitees := (invitees ev)[i0 := ivt]\<rparr>) w)"
    using respondToInvite_snd[of env ru pid st code w] by blast
  then show ?thesis
  proof cases
    case same
    then show ?thesis by simp
  next
    case saved
    show ?thesis
    proof (cases "store_write env (clock w) = None \<and> eid = pid")
      case True
      then have "stored_invitees w eid = invitees ev" using saved(1) by (simp add: stored_invitees_def)
      then show ?thesis using saved True by (auto simp: stored_invitees_event_save)
    next
      case False
      then show ?thesis using saved by (auto simp: stored_invitees_event_save)
    qed
  qed
qed

text \<open>
  C4. After any \<^verbatim>\<open>respondToInvite\<close> call the invitee list stored for an event is
  as long as before, and an entry of it that was bound to a user identity is still
  the entry at its place (the same \<^verbatim>\<open>_id\<close>) and is bound to the same identity:
  whatever the code, the status, the event named and the caller (also a caller who is
  another user, or none).
\<close>

theorem respondToInvite_keeps_binding:
  assumes "i < length (stored_invitees w eid)" and "inv_user (stored_invitees w eid ! i) = Some u"
  shows "length (stored_invitees (snd (respondToInvite env ru pid st code w)) eid)
           = length (stored_invitees w eid) \<and>
         inv_id (stored_invitees (snd (respondToInvite env ru pid st code w)) eid ! i)
           = inv_id (stored_invitees w eid ! i) \<and>
         inv_user (stored_invitees (snd (respondToInvite env ru pid st code w)) eid ! i) = Some u"
proof -
  consider (same) "stored_invitees (snd (respondToInvite env ru pid st code w)) eid = stored_invitees w eid"
    | (upd) i0 ivt where "i0 < length (stored_invitees w eid)"
        "stored_invitees (snd (respondToInvite env ru pid st code w)) eid = (stored_invitees w eid)[i0 := ivt]"
        "inv_id ivt = inv_id (stored_invitees w eid ! i0)"
        "inv_user (stored_invitees w eid ! i0) \<noteq> None \<longrightarrow> inv_user ivt = inv_user (stored_invitees w eid ! i0)"
    using respondToInvite_stored[of env ru pid st code w eid] by blast
  then show ?thesis
  proof cases
    case same
    then show ?thesis using assms by simp
  next
    case upd
    show ?thesis
    proof (cases "i = i0")
      case True
      then show ?thesis using assms upd by simp
    next
      case False
      then show ?thesis using assms upd by simp
    qed
  qed
qed

text \<open>
  C5. A status that is missing or is neither \<^verbatim>\<open>accepted\<close> nor \<^verbatim>\<open>declined\<close> is
  answered with the 400 error (\<open>InvalidInput\<close>); and when no invitee stored for the
  event carries the given code the call is answered with an error of kind
  \<open>InvalidInput\<close> or \<open>NotFound\<close>. In both cases the world is the one before the
  call: nothing is changed and nothing is saved.
\<close>

theorem respondToInvite_rejects:
  "(\<not> truthy st \<or> the st \<notin> set [''accepted'', ''declined''] \<longrightarrow>
      respondToInvite env ru pid st code w
        = (Inl (AppError ''Please provide valid status (accepted/declined)'' 400), w) \<and>
      errorKind_of (AppError ''Please provide valid status (accepted/declined)'' 400) = InvalidInput) \<and>
   ((\<forall>j\<in>set (stored_invitees w pid). inviteCode j \<noteq> code) \<longrightarrow>
      (\<exists>e. respondToInvite env ru pid st code w = (Inl e, w) \<and>
           (errorKind_of e = InvalidInput \<or> errorKind_of e = NotFound)))"
proof -
  have a: "respondToInvite env ru pid st code w
        = (Inl (AppError ''Please provide valid status (accepted/declined)'' 400), w)"
    if "\<not> truthy st \<or> the st \<notin> set [''accepted'', ''declined'']"
    using that by (simp add: respondToInvite_def)
  have b: "\<exists>e. respondToInvite env ru pid st code w = (Inl e, w) \<and>
           (errorKind_of e = InvalidInput \<or> errorKind_of e = NotFound)"
    if h: "\<forall>j\<in>set (stored_invitees w pid). inviteCode j \<noteq> code"
  proof (cases "events w pid")
    case None
    then show ?thesis by (simp add: respondToInvite_def)
  next
    case (Some ev)
    then have "findIndex (\<lambda>ivt. inviteCode ivt = code) (invitees ev) = None"
      using h by (simp add: findIndex_None stored_invitees_def)
    then show ?thesis using Some by (simp add: respondToInvite_def)
  qed
  show ?thesis using a b by simp
qed


text \<open>
  \<open>u1\<close> answers with the code of the entry bound to \<open>u2\<close>: the status changes, the
  binding does not.
\<close>

theorem respondToInvite_keeps_binding_witness:
  "0 < length (stored_invitees example_world ''e1'') \<and>
   inv_user (stored_invitees example_world ''e1'' ! 0) = Some ''u2'' \<and>
   inv_id (stored_invitees (snd (respondToInvite example_env (Some ''u1'') ''e1''
         (Some ''accepted'') (Some ''k1'') example_world)) ''e1'' ! 0) = ''i1'' \<and>
   inv_user (stored_invitees (snd (respondToInvite example_env (Some ''u1'') ''e1''
         (Some ''accepted'') (Some ''k1'') example_world)) ''e1'' ! 0) = Some ''u2'' \<and>
   inv_status (stored_invitees (snd (respondToInvite example_env (Some ''u1'') ''e1''
         (Some ''accepted'') (Some ''k1'') example_world)) ''e1'' ! 0) = ''accepted''"
proof -
  have h1: "0 < length (stored_invitees example_world ''e1'')"
    by (simp add: stored_invitees_def example_world_def example_event1_def)
  have h2: "inv_user (stored_invitees example_world ''e1'' ! 0) = Some ''u2''"
    by (simp add: stored_invitees_def example_world_def example_event1_def)
  have h3: "inv_id (stored_invitees example_world ''e1'' ! 0) = ''i1''"
    by (simp add: stored_invitees_def example_world_def example_event1_def)
  have s: "inv_status (stored_invitees (snd (respondToInvite example_env (Some ''u1'') ''e1''
         (Some ''accepted'') (Some ''k1'') example_world)) ''e1'' ! 0) = ''accepted''"
    by (simp add: respondToInvite_def stored_invitees_def example_world_def example_event1_def
        example_env_def event_save_def asked_def Let_def)
  show ?thesis
    using h1 h2 h3 s respondToInvite_keeps_binding[OF h1 h2, of example_env "Some ''u1''" "''e1''"
        "Some ''accepted''" "Some ''k1''"]
    by simp
qed

text \<open>The status \<open>maybe\<close>, and the unknown code \<open>zz\<close>, on event \<open>e1\<close>.\<close>

theorem respondToInvite_rejects_witness:
  "the (Some ''maybe'') \<notin> set [''accepted'', ''declined''] \<and>
   respondToInvite example_env (Some ''u1'') ''e1'' (Some ''maybe'') (Some ''k2'') example_world
     = (Inl (AppError ''Please provide valid status (accepted/declined)'' 400), example_world) \<and>
   Some ''zz'' \<notin> inviteCode ` set (stored_invitees example_world ''e1'') \<and>
   snd (respondToInvite example_env (Some ''u1'') ''e1'' (Some ''declined'') (Some ''zz'') example_world)
     = example_world \<and>
   fst (respondToInvite example_env (Some ''u1'') ''e1'' (Some ''declined'') (Some ''zz'') example_world)
     = Inl (AppError ''Invalid invite code'' 400)"
proof -
  have h1: "the (Some ''maybe'') \<notin> set [''accepted'', ''declined'']" by simp
  have h2: "Some ''zz'' \<notin> inviteCode ` set (stored_invitees example_world ''e1'')"
    by (simp add: stored_invitees_def example_world_def example_event1_def)
  then have h2': "\<forall>j\<in>set (stored_invitees example_world ''e1''). inviteCode j \<noteq> Some ''zz''"
    by force
  have a: "respondToInvite example_env (Some ''u1'') ''e1'' (Some ''maybe'') (Some ''k2'') example_world
     = (Inl (AppError ''Please provide valid status (accepted/declined)'' 400), example_world)"
    using respondToInvite_rejects[of "Some ''maybe''" example_env "Some ''u1''" "''e1''" "Some ''k2''"
        example_world] h1 by blast
  have b: "snd (respondToInvite example_env (Some ''u1'') ''e1'' (Some ''declined'') (Some ''zz'') example_world)
     = example_world"
    using respondToInvite_rejects[of "Some ''declined''" example_env "Some ''u1''" "''e1''" "Some ''zz''"
        example_world] h2' by force
  have c: "fst (respondToInvite example_env (Some ''u1'') ''e1'' (Some ''declined'') (Some ''zz'') example_world)
     = Inl (AppError ''Invalid invite code'' 400)"
    by (simp add: respondToInvite_def example_world_def example_event1_def)
  show ?thesis using h1 h2 a b c by blast
qed

section \<open>The claim about verifyInvitation\<close>

lemma find_select:
  "find (\<lambda>j. inviteCode j = c) (map (\<lambda>j. j\<lparr>inv_user := None, inv_email := None\<rparr>) xs)
     = map_option (\<lambda>j. j\<lparr>inv_user := None, inv_email := None\<rparr>) (find (\<lambda>j. inviteCode j = c) xs)"
  by (induction xs) auto

lemma find_None_iff_code: "find P xs = None \<longleftrightarrow> (\<forall>x\<in>set xs. \<not> P x)"
  by (induction xs) auto

text \<open>
  C3, as the code has it. \<^verbatim>\<open>verifyInvitation\<close> leaves the world as it is. An event
  that does not exist is answered with the 404 error (\<open>NotFound\<close>); an event none of
  whose invitees carries the code with the 400 error \<^verbatim>\<open>Invalid invitation code\<close>
  (\<open>InvalidInput\<close>, not \<open>NotFound\<close>). When the event exists, its creator is a user and
  some invitee carries the code, the answer is the view of the event (id, name, date,
  location, description, name of the creator) with the id, status and code of the
  first invitee carrying the code. The answer does not depend on the user identities
  and emails of the invitees: two events that differ only there get the same answer.
\<close>

theorem verifyInvitation_result:
  "snd (verifyInvitation eid code w) = w \<and>
   (events w eid = None \<longrightarrow>
      fst (verifyInvitation eid code w) = Inl (AppError ''Event not found'' 404) \<and>
      errorKind_of (AppError ''Event not found'' 404) = NotFound) \<and>
   (events w eid = Some ev \<and> (\<forall>j\<in>set (invitees ev). inviteCode j \<noteq> Some code) \<longrightarrow>
      fst (verifyInvitation eid code w) = Inl (AppError ''Invalid invitation code'' 400) \<and>
      errorKind_of (AppError ''Invalid invitation code'' 400) = InvalidInput) \<and>
   (events w eid = Some ev \<and> find (\<lambda>j. inviteCode j = Some code) (invitees ev) = Some ivt \<and>
    users w (creator ev) = Some cu \<longrightarrow>
      fst (verifyInvitation eid code w)
        = Inr \<lparr>vd_event = \<lparr>v_id = eid, v_name = ev_name ev, v_date = ev_date ev,
                            v_location = ev_location ev, v_description = ev_description ev,
                            v_creator = u_name cu\<rparr>,
                vd_invitation = \<lparr>iv_id = inv_id ivt, iv_status = inv_status ivt,
                                 iv_inviteCode = Some code\<rparr>\<rparr>) \<and>
   (events w eid = Some ev \<and> events w2 eid = Some ev2 \<and> select_invitees ev2 = select_invitees ev \<and>
    users w2 = users w \<longrightarrow>
      fst (verifyInvitation eid code w2) = fst (verifyInvitation eid code w))"
proof -
  have ro: "snd (verifyInvitation eid code w) = w"
    by (simp add: verifyInvitation_def split: option.splits)
  have nf: "fst (verifyInvitation eid code w) = Inl (AppError ''Event not found'' 404)"
    if "events w eid = None"
    using that by (simp add: verifyInvitation_def)
  have bad: "fst (verifyInvitation eid code w) = Inl (AppError ''Invalid invitation code'' 400)"
    if "events w eid = Some ev" "\<forall>j\<in>set (invitees ev). inviteCode j \<noteq> Some code"
  proof -
    have "find (\<lambda>j. inviteCode j = Some code) (invitees ev) = None"
      using that(2) by (simp add: find_None_iff_code)
    then show ?thesis using that(1)
      by (simp add: verifyInvitation_def select_invitees_def find_select)
  qed
  have ok: "fst (verifyInvitation eid code w)
        = Inr \<lparr>vd_event = \<lparr>v_id = eid, v_name = ev_name ev, v_date = ev_date ev,
                            v_location = ev_location ev, v_description = ev_description ev,
                            v_creator = u_name cu\<rparr>,
                vd_invitation = \<lparr>iv_id = inv_id ivt, iv_status = inv_status ivt,
                                 iv_inviteCode = Some code\<rparr>\<rparr>"
    if "events w eid = Some ev" "find (\<lambda>j. inviteCode j = Some code) (invitees ev) = Some ivt"
       "users w (creator ev) = Some cu"
  proof -
    have "inviteCode ivt = Some code" using that(2) by (auto simp: find_Some_iff)
    then show ?thesis using that
      by (simp add: verifyInvitation_def select_invitees_def find_select)
  qed
  have red: "fst (verifyInvitation eid code w2) = fst (verifyInvitation eid code w)"
    if "events w eid = Some ev" "events w2 eid = Some ev2" "select_invitees ev2 = select_invitees ev"
       "users w2 = users w"
    using that by (simp add: verifyInvitation_def split: option.splits)
  show ?thesis using ro nf bad ok red by simp
qed

text \<open>
  C3 as it is stated fails: event \<open>e1\<close> exists and none of its invitees carries the
  code \<open>zz\<close>, and the error is the 400 one, whose kind is not \<open>NotFound\<close>.
\<close>

theorem verifyInvitation_unknown_code_counterexample:
  "events example_world ''e1'' = Some example_event1 \<and>
   Some ''zz'' \<notin> inviteCode ` set (invitees example_event1) \<and>
   fst (verifyInvitation ''e1'' ''zz'' example_world) = Inl (AppError ''Invalid invitation code'' 400) \<and>
   errorKind_of (AppError ''Invalid invitation code'' 400) \<noteq> NotFound"
  by (simp add: verifyInvitation_def select_invitees_def example_world_def example_event1_def)


text \<open>No event \<open>e9\<close>; on \<open>e1\<close> the unknown code \<open>zz\<close> and the code \<open>k2\<close> of its second invitee.\<close>

theorem verifyInvitation_result_witness:
  "events example_world ''e9'' = None \<and>
   fst (verifyInvitation ''e9'' ''k2'' example_world) = Inl (AppError ''Event not found'' 404) \<and>
   events example_world ''e1'' = Some example_event1 \<and>
   Some ''zz'' \<notin> inviteCode ` set (invitees example_event1) \<and>
   fst (verifyInvitation ''e1'' ''zz'' example_world) = Inl (AppError ''Invalid invitation code'' 400) \<and>
   find (\<lambda>j. inviteCode j = Some ''k2'') (invitees example_event1)
     = Some \<lparr>inv_id = ''i2'', inv_user = None, inv_email = Some ''cy@x.com'',
             inv_status = ''pending'', inviteCode = Some ''k2''\<rparr> \<and>
   users example_world (creator example_event1) = Some \<lparr>u_name = ''Ann'', u_email = ''ann@x.com''\<rparr> \<and>
   verifyInvitation ''e1'' ''k2'' example_world
     = (Inr \<lparr>vd_event = \<lparr>v_id = ''e1'', v_name = ''Party'', v_date = ''2025-01-01'',
                          v_location = Some ''Hall'', v_description = None, v_creator = ''Ann''\<rparr>,
              vd_invitation = \<lparr>iv_id = ''i2'', iv_status = ''pending'', iv_inviteCode = Some ''k2''\<rparr>\<rparr>,
        example_world)"
proof -
  have h0: "events example_world ''e9'' = None" by (simp add: example_world_def)
  have h1: "events example_world ''e1'' = Some example_event1" by (simp add: example_world_def)
  have h2: "Some ''zz'' \<notin> inviteCode ` set (invitees example_event1)"
    by (simp add: example_event1_def)
  then have h2': "\<forall>j\<in>set (invitees example_event1). inviteCode j \<noteq> Some ''zz''" by force
  have h3: "find (\<lambda>j. inviteCode j = Some ''k2'') (invitees example_event1)
     = Some \<lparr>inv_id = ''i2'', inv_user = None, inv_email = Some ''cy@x.com'',
             inv_status = ''pending'', inviteCode = Some ''k2''\<rparr>"
    by (simp add: example_event1_def)
  have h4: "users example_world (creator example_event1) = Some \<lparr>u_name = ''Ann'', u_email = ''ann@x.com''\<rparr>"
    by (simp add: example_world_def example_event1_def)
  have a: "fst (verifyInvitation ''e9'' ''k2'' example_world) = Inl (AppError ''Event not found'' 404)"
    using verifyInvitation_result[where eid = "''e9''" and code = "''k2''" and w = example_world] h0
    by blast
  have b: "fst (verifyInvitation ''e1'' ''zz'' example_world) = Inl (AppError ''Invalid invitation code'' 400)"
    using verifyInvitation_result[where eid = "''e1''" and code = "''zz''" and w = example_world
        and ev = example_event1] h1 h2'
    by blast
  have c: "fst (verifyInvitation ''e1'' ''k2'' example_world)
     = Inr \<lparr>vd_event = \<lparr>v_id = ''e1'', v_name = ev_name example_event1, v_date = ev_date example_event1,
                          v_location = ev_location example_event1,
                          v_description = ev_description example_event1, v_creator = u_name \<lparr>u_name = ''Ann'', u_email = ''ann@x.com''\<rparr>\<rparr>,
              vd_invitation = \<lparr>iv_id = inv_id \<lparr>inv_id = ''i2'', inv_user = None, inv_email = Some ''cy@x.com'',
             inv_status = ''pending'', inviteCode = Some ''k2''\<rparr>, iv_status = inv_status \<lparr>inv_id = ''i2'', inv_user = None, inv_email = Some ''cy@x.com'',
             inv_status = ''pending'', inviteCode = Some ''k2''\<rparr>, iv_inviteCode = Some ''k2''\<rparr>\<rparr>"
    using verifyInvitation_result[where eid = "''e1''" and code = "''k2''" and w = example_world
        and ev = example_event1 and cu = "\<lparr>u_name = ''Ann'', u_email = ''ann@x.com''\<rparr>"
        and ivt = "\<lparr>inv_id = ''i2'', inv_user = None, inv_email = Some ''cy@x.com'',
             inv_status = ''pending'', inviteCode = Some ''k2''\<rparr>"] h1 h3 h4
    by blast
  have d: "snd (verifyInvitation ''e1'' ''k2'' example_world) = example_world"
    using verifyInvitation_result[where eid = "''e1''" and code = "''k2''" and w = example_world]
    by blast
  have e: "verifyInvitation ''e1'' ''k2'' example_world
     = (Inr \<lparr>vd_event = \<lparr>v_id = ''e1'', v_name = ''Party'', v_date = ''2025-01-01'',
                          v_location = Some ''Hall'', v_description = None, v_creator = ''Ann''\<rparr>,
              vd_invitation = \<lparr>iv_id = ''i2'', iv_status = ''pending'', iv_inviteCode = Some ''k2''\<rparr>\<rparr>,
        example_world)"
    using c d by (simp add: prod_eq_iff example_event1_def)
  show ?thesis using h0 h1 h2 h3 h4 a b e by blast
qed

section \<open>The claim about createNotification\<close>

lemma createNotification_unfold:
  "createNotification env d w =
     (case store_write env (clock w) of
        Some e \<Rightarrow> (Inl e, asked (CreateNotification d) w)
      | None \<Rightarrow>
          (let n = notification_doc (newObjectId env (clock w)) d;
               w1 = asked (CreateNotification d) (w\<lparr>notifications := notifications w @ [n]\<rparr>)
           in if truthy (d_email d)
              then (case sgMail_send env (Suc (clock w)) (notificationEmail n) of
                      Some e' \<Rightarrow> (Inr n, asked (SendEmail (notificationEmail n)) w1)
                    | None \<Rightarrow>
                        (Inr (n\<lparr>isSent := True\<rparr>),
                         snd (notification_save env (n\<lparr>isSent := True\<rparr>)
                                (asked (SendEmail (notificationEmail n)) w1))))
              else (Inr n, w1)))"
  by (simp add: createNotification_def Notification_create_def sendNotificationEmail_def
      sendEmail_def asked_def notification_doc_def Let_def split: option.splits)

lemma createNotification_plain:
  assumes "d_email d = None"
  shows "createNotification env d w =
     (case store_write env (clock w) of
        Some e \<Rightarrow> (Inl e, asked (CreateNotification d) w)
      | None \<Rightarrow>
          (Inr (notification_doc (newObjectId env (clock w)) d),
           asked (CreateNotification d)
             (w\<lparr>notifications := notifications w @ [notification_doc (newObjectId env (clock w)) d]\<rparr>)))"
  using assms by (simp add: createNotification_unfold Let_def split: option.splits)

lemma notification_save_facts:
  "calls (snd (notification_save env n w)) = calls w @ [SaveNotification n]"
  "set (notifications (snd (notification_save env n w))) \<subseteq> insert n (set (notifications w))"
  by (auto simp: notification_save_def asked_def split: option.splits)

lemma Notification_create_facts:
  "fst (Notification_create env d w) = Inl e \<longleftrightarrow> store_write env (clock w) = Some e"
  "fst (Notification_create env d w) = Inr n0 \<longleftrightarrow>
     store_write env (clock w) = None \<and> n0 = notification_doc (newObjectId env (clock w)) d"
  "clock (snd (Notification_create env d w)) = Suc (clock w)"
  "n_email (notification_doc i d) = d_email d"
  by (auto simp: Notification_create_def asked_def notification_doc_def Let_def split: option.splits)

text \<open>
  C6. The first call \<^verbatim>\<open>createNotification\<close> makes is the creation of the record, and
  it fails with an error exactly when that creation fails with it. When the record
  \<open>n0\<close> is created and has an email, the next call is the delivery of its message;
  when that delivery fails the call still succeeds with \<open>n0\<close>, whose \<^verbatim>\<open>isSent\<close> is
  false, and \<open>n0\<close> is what is stored. A returned notification, or one newly stored,
  has \<^verbatim>\<open>isSent\<close> true only when there was an email and its delivery succeeded.
\<close>

theorem createNotification_contract:
  "(\<exists>rest. calls (snd (createNotification env d w)) = calls w @ CreateNotification d # rest) \<and>
   (fst (createNotification env d w) = Inl e \<longleftrightarrow> fst (Notification_create env d w) = Inl e) \<and>
   (fst (Notification_create env d w) = Inr n0 \<and> truthy (n_email n0) \<longrightarrow>
      (\<exists>rest. calls (snd (createNotification env d w))
         = calls w @ CreateNotification d # SendEmail (notificationEmail n0) # rest)) \<and>
   (fst (Notification_create env d w) = Inr n0 \<and> truthy (n_email n0) \<and>
    sgMail_send env (clock (snd (Notification_create env d w))) (notificationEmail n0) = Some e'
    \<longrightarrow>
      fst (createNotification env d w) = Inr n0 \<and> isSent n0 = False \<and>
      notifications (snd (createNotification env d w)) = notifications w @ [n0]) \<and>
   (fst (createNotification env d w) = Inr n \<and> isSent n \<longrightarrow>
      (\<exists>n1. fst (Notification_create env d w) = Inr n1 \<and> truthy (n_email n1) \<and>
         sgMail_send env (clock (snd (Notification_create env d w))) (notificationEmail n1) = None)) \<and>
   (m \<in> set (notifications (snd (createNotification env d w))) \<and> m \<notin> set (notifications w) \<and> isSent m \<longrightarrow>
      (\<exists>n1. fst (Notification_create env d w) = Inr n1 \<and> truthy (n_email n1) \<and>
         sgMail_send env (clock (snd (Notification_create env d w))) (notificationEmail n1) = None))"
proof -
  let ?n = "notification_doc (newObjectId env (clock w)) d"
  have ns: "\<not> isSent ?n" by (simp add: notification_doc_def)
  have 1: "\<exists>rest. calls (snd (createNotification env d w)) = calls w @ CreateNotification d # rest"
    by (simp add: createNotification_unfold Let_def notification_save_facts asked_def
        split: option.splits)
  have 2: "fst (createNotification env d w) = Inl e \<longleftrightarrow> fst (Notification_create env d w) = Inl e"
    by (simp add: Notification_create_facts createNotification_unfold Let_def split: option.splits)
  have 3: "\<exists>rest. calls (snd (createNotification env d w))
         = calls w @ CreateNotification d # SendEmail (notificationEmail n0) # rest"
    if "fst (Notification_create env d w) = Inr n0" "truthy (n_email n0)"
    using that by (simp add: Notification_create_facts createNotification_unfold Let_def
        notification_save_facts asked_def split: option.splits)
  have 4: "fst (createNotification env d w) = Inr n0 \<and> isSent n0 = False \<and>
      notifications (snd (createNotification env d w)) = notifications w @ [n0]"
    if "fst (Notification_create env d w) = Inr n0" "truthy (n_email n0)"
       "sgMail_send env (clock (snd (Notification_create env d w))) (notificationEmail n0) = Some e'"
    using that ns by (simp add: Notification_create_facts createNotification_unfold Let_def asked_def)
  have 5: "\<exists>n1. fst (Notification_create env d w) = Inr n1 \<and> truthy (n_email n1) \<and>
         sgMail_send env (clock (snd (Notification_create env d w))) (notificationEmail n1) = None"
    if "fst (createNotification env d w) = Inr n" "isSent n"
    using that ns
    by (auto simp: Notification_create_facts createNotification_unfold Let_def
        split: option.splits if_splits)
  have 6: "\<exists>n1. fst (Notification_create env d w) = Inr n1 \<and> truthy (n_email n1) \<and>
         sgMail_send env (clock (snd (Notification_create env d w))) (notificationEmail n1) = None"
    if "m \<in> set (notifications (snd (createNotification env d w)))" "m \<notin> set (notifications w)" "isSent m"
  proof (rule ccontr)
    assume "\<not> (\<exists>n1. fst (Notification_create env d w) = Inr n1 \<and> truthy (n_email n1) \<and>
         sgMail_send env (clock (snd (Notification_create env d w))) (notificationEmail n1) = None)"
    then have "set (notifications (snd (createNotification env d w))) \<subseteq> insert ?n (set (notifications w))"
      by (auto simp: Notification_create_facts createNotification_unfold Let_def asked_def
          split: option.splits)
    then show False using that ns by auto
  qed
  show ?thesis using 1 2 3 4 5 6 by blast
qed

text \<open>
  A store that refuses the record; a SendGrid that refuses the message; and an
  environment that accepts both.
\<close>

theorem createNotification_contract_witness:
  "fst (Notification_create (example_env\<lparr>store_write := \<lambda>t. Some (Thrown ''MongoError'')\<rparr>)
          example_data example_world) = Inl (Thrown ''MongoError'') \<and>
   fst (createNotification (example_env\<lparr>store_write := \<lambda>t. Some (Thrown ''MongoError'')\<rparr>)
          example_data example_world) = Inl (Thrown ''MongoError'') \<and>
   fst (Notification_create (example_env\<lparr>sgMail_send := \<lambda>t c. Some (Thrown ''ResponseError'')\<rparr>)
          example_data example_world) = Inr (notification_doc ''i'' example_data) \<and>
   truthy (n_email (notification_doc ''i'' example_data)) \<and>
   sgMail_send (example_env\<lparr>sgMail_send := \<lambda>t c. Some (Thrown ''ResponseError'')\<rparr>)
      (clock (snd (Notification_create (example_env\<lparr>sgMail_send := \<lambda>t c. Some (Thrown ''ResponseError'')\<rparr>)
          example_data example_world)))
      (notificationEmail (notification_doc ''i'' example_data)) = Some (Thrown ''ResponseError'') \<and>
   fst (createNotification (example_env\<lparr>sgMail_send := \<lambda>t c. Some (Thrown ''ResponseError'')\<rparr>)
          example_data example_world) = Inr (notification_doc ''i'' example_data) \<and>
   isSent (notification_doc ''i'' example_data) = False \<and>
   notifications (snd (createNotification (example_env\<lparr>sgMail_send := \<lambda>t c. Some (Thrown ''ResponseError'')\<rparr>)
          example_data example_world)) = [notification_doc ''i'' example_data] \<and>
   calls (snd (createNotification (example_env\<lparr>sgMail_send := \<lambda>t c. Some (Thrown ''ResponseError'')\<rparr>)
          example_data example_world))
     = [CreateNotification example_data, SendEmail (notificationEmail (notification_doc ''i'' example_data))] \<and>
   createNotification example_env example_data example_world
     = (Inr ((notification_doc ''i'' example_data)\<lparr>isSent := True\<rparr>),
        example_world\<lparr>notifications := [(notification_doc ''i'' example_data)\<lparr>isSent := True\<rparr>],
          calls := [CreateNotification example_data,
                    SendEmail (notificationEmail (notification_doc ''i'' example_data)),
                    SaveNotification ((notification_doc ''i'' example_data)\<lparr>isSent := True\<rparr>)],
          clock := 3\<rparr>)"
proof -
  let ?envF = "example_env\<lparr>store_write := \<lambda>t. Some (Thrown ''MongoError'')\<rparr>"
  let ?envS = "example_env\<lparr>sgMail_send := \<lambda>t c. Some (Thrown ''ResponseError'')\<rparr>"
  let ?n = "notification_doc ''i'' example_data"
  have h1: "fst (Notification_create ?envF example_data example_world) = Inl (Thrown ''MongoError'')"
    by (simp add: Notification_create_def)
  have h2: "fst (Notification_create ?envS example_data example_world) = Inr ?n"
    by (simp add: Notification_create_def example_env_def example_world_def Let_def)
  have h3: "truthy (n_email ?n)" by (simp add: notification_doc_def example_data_def)
  have h4: "sgMail_send ?envS (clock (snd (Notification_create ?envS example_data example_world)))
      (notificationEmail ?n) = Some (Thrown ''ResponseError'')"
    by simp
  note t = createNotification_contract[where env = ?envS and d = example_data and w = example_world
      and ?n0.0 = ?n and e' = "Thrown ''ResponseError''"]
  have a: "fst (createNotification ?envF example_data example_world) = Inl (Thrown ''MongoError'')"
    using createNotification_contract[where env = ?envF and d = example_data and w = example_world
        and e = "Thrown ''MongoError''"] h1 by blast
  have b: "fst (createNotification ?envS example_data example_world) = Inr ?n \<and> isSent ?n = False \<and>
      notifications (snd (createNotification ?envS example_data example_world))
        = notifications example_world @ [?n]"
    using t h2 h3 h4 by blast
  have nw: "notifications example_world = []" by (simp add: example_world_def)
  have c: "calls (snd (createNotification ?envS example_data example_world))
     = [CreateNotification example_data, SendEmail (notificationEmail ?n)]"
    by (simp add: createNotification_unfold Let_def asked_def example_env_def example_world_def
        example_data_def notification_doc_def)
  have d: "createNotification example_env example_data example_world
     = (Inr (?n\<lparr>isSent := True\<rparr>),
        example_world\<lparr>notifications := [?n\<lparr>isSent := True\<rparr>],
          calls := [CreateNotification example_data, SendEmail (notificationEmail ?n),
                    SaveNotification (?n\<lparr>isSent := True\<rparr>)],
          clock := 3\<rparr>)"
    by (simp add: createNotification_unfold Let_def asked_def notification_save_def example_env_def
        example_world_def example_data_def notification_doc_def)
  show ?thesis using h1 h2 h3 h4 a b c d nw by simp
qed


section \<open>The claim about sendInvitations\<close>

lemma fold_invariant:
  assumes "\<And>x st. x \<in> A \<Longrightarrow> P st \<Longrightarrow> P (f x st)" and "set xs \<subseteq> A" and "P st"
  shows "P (fold f xs st)"
  using assms(2,3)
proof (induction xs arbitrary: st)
  case Nil
  then show ?case by simp
next
  case (Cons x xs)
  then have "P (f x st)" using assms(1) by simp
  then show ?case using Cons by simp
qed

lemma sendInvitation_step_cases:
  assumes "sendInvitation_step env protocol host eid ev cu i (sent, failed, w) = (sent', failed', w')"
  shows "(\<exists>more. sent' = sent @ more)"
    and "notifications w' = notifications w \<or>
         (\<exists>j u. find (\<lambda>j. inv_id j = i) (invitees ev) = Some j \<and> inv_user j = Some u \<and>
            notifications w' = notifications w
               @ [notification_doc (newObjectId env (Suc (clock w))) (inviteNotification eid ev cu u)])"
    and "\<And>j. find (\<lambda>j. inv_id j = i) (invitees ev) = Some j \<Longrightarrow> inv_user j = None \<Longrightarrow>
           sgMail_send env (clock w) (invitationEmail env protocol host eid ev cu j) = None \<Longrightarrow>
           sent' = sent @ [\<lparr>s_id = i, s_email = inv_email j\<rparr>] \<and> notifications w' = notifications w"
  using assms
  by (auto simp: sendEmail_def createNotification_plain asked_def inviteNotification_def
      split: option.splits)


declare sendInvitation_step.simps [simp del]

lemma sendInvitations_loop:
  assumes "sendInvitations env ru protocol host eid (Some ids) w = (Inr (sent, failed), w')"
    and "events w eid = Some ev" and "users w (creator ev) = Some cu"
  shows "fold (sendInvitation_step env protocol host eid ev cu) ids ([], [], w) = (sent, failed, w')"
  using assms
  by (auto simp: sendInvitations_def Let_def split: option.splits if_splits prod.splits)

lemma step_sent_mono:
  assumes "x \<in> set (fst st)"
  shows "x \<in> set (fst (sendInvitation_step env protocol host eid ev cu i st))"
proof -
  obtain sent failed w where st: "st = (sent, failed, w)" by (cases st)
  obtain sent' failed' w' where r: "sendInvitation_step env protocol host eid ev cu i (sent, failed, w) = (sent', failed', w')"
    by (cases "sendInvitation_step env protocol host eid ev cu i (sent, failed, w)")
  from sendInvitation_step_cases(1)[OF r] assms show ?thesis by (auto simp: st r)
qed

text \<open>
  C10. When \<^verbatim>\<open>sendInvitations\<close> answers, the notifications are those before the
  call followed by new ones, each of type \<^verbatim>\<open>event_invite\<close> and addressed to the user
  bound to an invitee that the batch names; so a batch that names only invitees with
  no user identity creates none. And an invitee of the batch with no user identity,
  the delivery of whose invitation succeeds, is in the list of those reported as sent.
\<close>

theorem sendInvitations_notifies_bound_only:
  assumes "sendInvitations env ru protocol host eid (Some ids) w = (Inr (sent, failed), w')"
    and "events w eid = Some ev" and "users w (creator ev) = Some cu"
  shows "(\<exists>new. notifications w' = notifications w @ new \<and>
            (\<forall>n\<in>set new. \<exists>i\<in>set ids. \<exists>j. find (\<lambda>j. inv_id j = i) (invitees ev) = Some j \<and>
               inv_user j \<noteq> None \<and> recipient n = inv_user j \<and> n_type n = ''event_invite'')) \<and>
         ((\<forall>i\<in>set ids. \<forall>j. find (\<lambda>j. inv_id j = i) (invitees ev) = Some j \<longrightarrow> inv_user j = None) \<longrightarrow>
            notifications w' = notifications w) \<and>
         (\<forall>i j. i \<in> set ids \<and> find (\<lambda>j. inv_id j = i) (invitees ev) = Some j \<and> inv_user j = None \<and>
                (\<forall>t. sgMail_send env t (invitationEmail env protocol host eid ev cu j) = None) \<longrightarrow>
            \<lparr>s_id = i, s_email = inv_email j\<rparr> \<in> set sent)"
proof -
  let ?f = "sendInvitation_step env protocol host eid ev cu"
  let ?Q = "\<lambda>n. \<exists>i\<in>set ids. \<exists>j. find (\<lambda>j. inv_id j = i) (invitees ev) = Some j \<and>
               inv_user j \<noteq> None \<and> recipient n = inv_user j \<and> n_type n = ''event_invite''"
  let ?P = "\<lambda>st. \<exists>new. notifications (snd (snd st)) = notifications w @ new \<and> (\<forall>n\<in>set new. ?Q n)"
  have loop: "fold ?f ids ([], [], w) = (sent, failed, w')"
    by (rule sendInvitations_loop[OF assms])
  have step: "?P (?f i st)" if i: "i \<in> set ids" and P: "?P st" for i st
  proof -
    obtain s0 f0 w0 where st: "st = (s0, f0, w0)" by (cases st)
    obtain s1 f1 w1 where r: "?f i (s0, f0, w0) = (s1, f1, w1)" by (cases "?f i (s0, f0, w0)")
    from P obtain new where new: "notifications w0 = notifications w @ new" "\<forall>n\<in>set new. ?Q n"
      by (auto simp: st)
    from sendInvitation_step_cases(2)[OF r]
    consider "notifications w1 = notifications w0"
      | j u where "find (\<lambda>j. inv_id j = i) (invitees ev) = Some j" "inv_user j = Some u"
          "notifications w1 = notifications w0
             @ [notification_doc (newObjectId env (Suc (clock w0))) (inviteNotification eid ev cu u)]"
      by blast
    then show ?thesis
    proof cases
      case 1
      then show ?thesis using new by (auto simp: st r)
    next
      case 2
      let ?n = "notification_doc (newObjectId env (Suc (clock w0))) (inviteNotification eid ev cu u)"
      have "recipient ?n = inv_user j \<and> n_type ?n = ''event_invite''"
        using 2(2) by (simp add: notification_doc_def inviteNotification_def)
      then have "?Q ?n" using 2(1,2) i by blast
      then have "\<forall>n\<in>set (new @ [?n]). ?Q n" using new(2) by auto
      moreover have "notifications w1 = notifications w @ (new @ [?n])" using 2(3) new(1) by simp
      ultimately show ?thesis unfolding st r by (metis snd_conv)
    qed
  qed
  have "?P (fold ?f ids ([], [], w))"
    by (rule fold_invariant[where A = "set ids" and P = ?P]) (use step in auto)
  then have 1: "\<exists>new. notifications w' = notifications w @ new \<and> (\<forall>n\<in>set new. ?Q n)"
    by (simp add: loop)
  have 2: "notifications w' = notifications w"
    if "\<forall>i\<in>set ids. \<forall>j. find (\<lambda>j. inv_id j = i) (invitees ev) = Some j \<longrightarrow> inv_user j = None"
  proof -
    from 1 obtain new where new: "notifications w' = notifications w @ new" "\<forall>n\<in>set new. ?Q n" by blast
    have "new = []"
    proof (cases new)
      case Nil
      then show ?thesis .
    next
      case (Cons n ns)
      then have "?Q n" using new(2) by simp
      then show ?thesis using that by force
    qed
    then show ?thesis using new(1) by simp
  qed
  have 3: "\<lparr>s_id = i, s_email = inv_email j\<rparr> \<in> set sent"
    if "i \<in> set ids" "find (\<lambda>j. inv_id j = i) (invitees ev) = Some j" "inv_user j = None"
       "\<forall>t. sgMail_send env t (invitationEmail env protocol host eid ev cu j) = None" for i j
  proof -
    from that(1) obtain pre post where ids: "ids = pre @ i # post" by (auto dest: split_list)
    obtain s0 f0 w0 where p: "fold ?f pre ([], [], w) = (s0, f0, w0)" by (cases "fold ?f pre ([], [], w)")
    obtain s1 f1 w1 where r: "?f i (s0, f0, w0) = (s1, f1, w1)" by (cases "?f i (s0, f0, w0)")
    have "s1 = s0 @ [\<lparr>s_id = i, s_email = inv_email j\<rparr>]"
      using sendInvitation_step_cases(3)[OF r that(2,3)] that(4) by simp
    then have m: "\<lparr>s_id = i, s_email = inv_email j\<rparr> \<in> set (fst (s1, f1, w1))" by simp
    have "\<lparr>s_id = i, s_email = inv_email j\<rparr> \<in> set (fst (fold ?f post (s1, f1, w1)))"
      by (rule fold_invariant[where A = UNIV and P = "\<lambda>st. \<lparr>s_id = i, s_email = inv_email j\<rparr> \<in> set (fst st)"])
         (use m step_sent_mono in auto)
    moreover have "fold ?f post (s1, f1, w1) = (sent, failed, w')"
      using loop by (simp add: ids p r)
    ultimately show ?thesis by simp
  qed
  show ?thesis using 1 2 3 by blast
qed


text \<open>
  The batch \<open>i1\<close> (bound to \<open>u2\<close>), \<open>i2\<close> (email only), \<open>i3\<close> (no such invitee), and
  the batch \<open>i2\<close> alone.
\<close>

theorem sendInvitations_notifies_bound_only_witness:
  "sendInvitations example_env (Some ''u1'') ''https'' ''h.com'' ''e1'' (Some [''i1'', ''i2'', ''i3'']) example_world
     = (Inr ([\<lparr>s_id = ''i1'', s_email = Some ''bob@x.com''\<rparr>, \<lparr>s_id = ''i2'', s_email = Some ''cy@x.com''\<rparr>],
             [\<lparr>f_id = ''i3'', f_email = None, f_reason = ''Invitee not found in event''\<rparr>]),
        snd (sendInvitations example_env (Some ''u1'') ''https'' ''h.com'' ''e1'' (Some [''i1'', ''i2'', ''i3''])
               example_world)) \<and>
   events example_world ''e1'' = Some example_event1 \<and>
   users example_world (creator example_event1) = Some \<lparr>u_name = ''Ann'', u_email = ''ann@x.com''\<rparr> \<and>
   ''i2'' \<in> set [''i1'', ''i2'', ''i3''] \<and>
   find (\<lambda>j. inv_id j = ''i2'') (invitees example_event1)
     = Some \<lparr>inv_id = ''i2'', inv_user = None, inv_email = Some ''cy@x.com'',
             inv_status = ''pending'', inviteCode = Some ''k2''\<rparr> \<and>
   (\<forall>t. sgMail_send example_env t
          (invitationEmail example_env ''https'' ''h.com'' ''e1'' example_event1
             \<lparr>u_name = ''Ann'', u_email = ''ann@x.com''\<rparr>
             \<lparr>inv_id = ''i2'', inv_user = None, inv_email = Some ''cy@x.com'',
              inv_status = ''pending'', inviteCode = Some ''k2''\<rparr>) = None) \<and>
   \<lparr>s_id = ''i2'', s_email = Some ''cy@x.com''\<rparr>
     \<in> set [\<lparr>s_id = ''i1'', s_email = Some ''bob@x.com''\<rparr>, \<lparr>s_id = ''i2'', s_email = Some ''cy@x.com''\<rparr>] \<and>
   map recipient (notifications (snd (sendInvitations example_env (Some ''u1'') ''https'' ''h.com'' ''e1''
        (Some [''i1'', ''i2'', ''i3'']) example_world))) = [Some ''u2''] \<and>
   fst (sendInvitations example_env (Some ''u1'') ''https'' ''h.com'' ''e1'' (Some [''i2'']) example_world)
     = Inr ([\<lparr>s_id = ''i2'', s_email = Some ''cy@x.com''\<rparr>], []) \<and>
   notifications (snd (sendInvitations example_env (Some ''u1'') ''https'' ''h.com'' ''e1'' (Some [''i2''])
        example_world)) = notifications example_world"
proof -
  let ?ann = "\<lparr>u_name = ''Ann'', u_email = ''ann@x.com''\<rparr>"
  let ?i2 = "\<lparr>inv_id = ''i2'', inv_user = None, inv_email = Some ''cy@x.com'',
             inv_status = ''pending'', inviteCode = Some ''k2''\<rparr>"
  let ?run3 = "sendInvitations example_env (Some ''u1'') ''https'' ''h.com'' ''e1'' (Some [''i1'', ''i2'', ''i3''])
               example_world"
  let ?run1 = "sendInvitations example_env (Some ''u1'') ''https'' ''h.com'' ''e1'' (Some [''i2''])
               example_world"
  have f3: "fst ?run3
     = Inr ([\<lparr>s_id = ''i1'', s_email = Some ''bob@x.com''\<rparr>, \<lparr>s_id = ''i2'', s_email = Some ''cy@x.com''\<rparr>],
             [\<lparr>f_id = ''i3'', f_email = None, f_reason = ''Invitee not found in event''\<rparr>])"
    by (simp add: sendInvitations_def sendInvitation_step.simps sendEmail_def createNotification_plain
        inviteNotification_def asked_def example_world_def example_event1_def example_env_def Let_def)
  have f1: "fst ?run1 = Inr ([\<lparr>s_id = ''i2'', s_email = Some ''cy@x.com''\<rparr>], [])"
    by (simp add: sendInvitations_def sendInvitation_step.simps sendEmail_def
        asked_def example_world_def example_event1_def example_env_def Let_def)
  have n3: "map recipient (notifications (snd ?run3)) = [Some ''u2'']"
    by (simp add: sendInvitations_def sendInvitation_step.simps sendEmail_def createNotification_plain
        inviteNotification_def notification_doc_def asked_def example_world_def example_event1_def
        example_env_def Let_def)
  have h1: "events example_world ''e1'' = Some example_event1" by (simp add: example_world_def)
  have h2: "users example_world (creator example_event1) = Some ?ann"
    by (simp add: example_world_def example_event1_def)
  have h3: "find (\<lambda>j. inv_id j = ''i2'') (invitees example_event1) = Some ?i2"
    by (simp add: example_event1_def)
  have h4: "\<forall>t. sgMail_send example_env t
          (invitationEmail example_env ''https'' ''h.com'' ''e1'' example_event1 ?ann ?i2) = None"
    by (simp add: example_env_def)
  have r3: "?run3 = (Inr ([\<lparr>s_id = ''i1'', s_email = Some ''bob@x.com''\<rparr>, \<lparr>s_id = ''i2'', s_email = Some ''cy@x.com''\<rparr>],
             [\<lparr>f_id = ''i3'', f_email = None, f_reason = ''Invitee not found in event''\<rparr>]), snd ?run3)"
    using f3 by (simp add: prod_eq_iff)
  have r1: "?run1 = (Inr ([\<lparr>s_id = ''i2'', s_email = Some ''cy@x.com''\<rparr>], []), snd ?run1)"
    using f1 by (simp add: prod_eq_iff)
  have a: "\<lparr>s_id = ''i2'', s_email = inv_email ?i2\<rparr>
     \<in> set [\<lparr>s_id = ''i1'', s_email = Some ''bob@x.com''\<rparr>, \<lparr>s_id = ''i2'', s_email = Some ''cy@x.com''\<rparr>]"
    using sendInvitations_notifies_bound_only[OF r3 h1 h2] h3 h4 by simp
  have "\<forall>i\<in>set [''i2'']. \<forall>j. find (\<lambda>j. inv_id j = i) (invitees example_event1) = Some j \<longrightarrow> inv_user j = None"
    using h3 by simp
  then have b: "notifications (snd ?run1) = notifications example_world"
    using sendInvitations_notifies_bound_only[OF r1 h1 h2] by blast
  show ?thesis using r3 h1 h2 h3 h4 a n3 f1 b by simp
qed

section \<open>The claims about processPhoto\<close>

declare processMatches.simps [simp del]

text \<open>
  The loop over the matches when the store accepts every write: the faces of the
  matches whose identity is a user are appended in order, one notification is created
  for each of them, and nothing else in the world changes.
\<close>

lemma processMatches_accepted:
  assumes "\<forall>t. store_write env t = None"
  shows "\<exists>w' new. processMatches env eid ev pid ms p w
           = (Inr (p\<lparr>detectedFaces := detectedFaces p
                       @ map matchedFace (filter (\<lambda>m. users w (ExternalImageId (Face m)) \<noteq> None) ms)\<rparr>), w') \<and>
         users w' = users w \<and> events w' = events w \<and> photos w' = photos w \<and>
         calls w' = calls w @ map (\<lambda>m. CreateNotification (taggedNotification eid ev pid m))
                                  (filter (\<lambda>m. users w (ExternalImageId (Face m)) \<noteq> None) ms) \<and>
         notifications w' = notifications w @ new \<and>
         map notification_data new = map (taggedNotification eid ev pid)
                                  (filter (\<lambda>m. users w (ExternalImageId (Face m)) \<noteq> None) ms) \<and>
         (\<forall>n\<in>set new. \<not> isSent n)"
proof (induction ms arbitrary: p w)
  case Nil
  show ?case by (simp add: processMatches.simps)
next
  case (Cons m ms)
  show ?case
  proof (cases "users w (ExternalImageId (Face m))")
    case None
    then show ?thesis using Cons.IH[of p w] by (simp add: processMatches.simps)
  next
    case (Some usr)
    let ?d = "taggedNotification eid ev pid m"
    let ?n = "notification_doc (newObjectId env (clock w)) ?d"
    let ?w1 = "asked (CreateNotification ?d) (w\<lparr>notifications := notifications w @ [?n]\<rparr>)"
    let ?p1 = "p\<lparr>detectedFaces := detectedFaces p @ [matchedFace m]\<rparr>"
    have cn: "createNotification env ?d w = (Inr ?n, ?w1)"
      using assms by (simp add: createNotification_plain taggedNotification_def)
    have step: "processMatches env eid ev pid (m # ms) p w = processMatches env eid ev pid ms ?p1 ?w1"
      by (simp add: processMatches.simps Some cn Let_def)
    have u1: "users ?w1 = users w" by (simp add: asked_def)
    from Cons.IH[of ?p1 ?w1] obtain w' new where
      r: "processMatches env eid ev pid ms ?p1 ?w1
           = (Inr (?p1\<lparr>detectedFaces := detectedFaces ?p1
                       @ map matchedFace (filter (\<lambda>m. users ?w1 (ExternalImageId (Face m)) \<noteq> None) ms)\<rparr>), w')"
      and k: "users w' = users ?w1" "events w' = events ?w1" "photos w' = photos ?w1"
      and c: "calls w' = calls ?w1 @ map (\<lambda>m. CreateNotification (taggedNotification eid ev pid m))
                                  (filter (\<lambda>m. users ?w1 (ExternalImageId (Face m)) \<noteq> None) ms)"
      and n: "notifications w' = notifications ?w1 @ new"
      and d: "map notification_data new = map (taggedNotification eid ev pid)
                                  (filter (\<lambda>m. users ?w1 (ExternalImageId (Face m)) \<noteq> None) ms)"
      and s: "\<forall>n\<in>set new. \<not> isSent n"
      by blast
    have nd: "notification_data ?n = ?d \<and> \<not> isSent ?n"
      by (simp add: notification_data_def notification_doc_def)
    have "processMatches env eid ev pid (m # ms) p w
           = (Inr (p\<lparr>detectedFaces := detectedFaces p
                       @ map matchedFace (filter (\<lambda>m. users w (ExternalImageId (Face m)) \<noteq> None) (m # ms))\<rparr>), w')"
      using r by (simp add: step u1 Some)
    moreover have "users w' = users w \<and> events w' = events w \<and> photos w' = photos w"
      using k by (simp add: asked_def)
    moreover have "calls w' = calls w @ map (\<lambda>m. CreateNotification (taggedNotification eid ev pid m))
                                  (filter (\<lambda>m. users w (ExternalImageId (Face m)) \<noteq> None) (m # ms))"
      using c by (simp add: u1 Some asked_def)
    moreover have "notifications w' = notifications w @ (?n # new)"
      using n by (simp add: asked_def)
    moreover have "map notification_data (?n # new) = map (taggedNotification eid ev pid)
                                  (filter (\<lambda>m. users w (ExternalImageId (Face m)) \<noteq> None) (m # ms))"
      using d nd by (simp add: u1 Some)
    moreover have "\<forall>n\<in>set (?n # new). \<not> isSent n" using s nd by simp
    ultimately show ?thesis by blast
  qed
qed


lemma photo_save_accepted:
  assumes "store_write env (clock w) = None"
  shows "snd (photo_save env pid p w)
           = asked (SavePhoto pid p) (w\<lparr>photos := (photos w)(pid \<mapsto> p)\<rparr>)"
  using assms by (simp add: photo_save_def)

text \<open>
  The whole run when the photo and its event exist, detection reports a face, the
  search answers and the store accepts every write.
\<close>

lemma processPhoto_run:
  assumes "photos w pid = Some p" and "events w (ph_event p) = Some ev"
    and "rekognition_detectFaces env (clock w) (ph_path p) = Some dr"
    and "FaceDetails dr = Some fds" and "fds \<noteq> []"
    and "rekognition_searchFacesByImage env (Suc (clock w)) (ph_path p) = Some sr"
    and "ms = (case FaceMatches sr of None \<Rightarrow> [] | Some xs \<Rightarrow> xs)"
    and "\<forall>t. store_write env t = None"
  shows "let ms' = filter (\<lambda>m. users w (ExternalImageId (Face m)) \<noteq> None) ms;
             p' = p\<lparr>detectedFaces := detectedFaces p @ map matchedFace ms', isProcessed := True\<rparr>;
             w' = processPhoto env pid w
         in ((\<forall>m\<in>set ms. users w (ExternalImageId (Face m)) \<noteq> None) \<longrightarrow> ms' = ms) \<and>
            photos w' = (photos w)(pid \<mapsto> p') \<and>
            (\<exists>new. notifications w' = notifications w @ new \<and>
                   map notification_data new = map (taggedNotification (ph_event p) ev pid) ms') \<and>
            calls w' = calls w @ [DetectFaces (ph_path p), SearchFaces (ph_path p)]
                         @ map (\<lambda>m. CreateNotification (taggedNotification (ph_event p) ev pid m)) ms'
                         @ [SavePhoto pid p']"
proof -
  let ?ms' = "filter (\<lambda>m. users w (ExternalImageId (Face m)) \<noteq> None) ms"
  let ?p' = "p\<lparr>detectedFaces := detectedFaces p @ map matchedFace ?ms', isProcessed := True\<rparr>"
  let ?w1 = "asked (DetectFaces (ph_path p)) w"
  let ?w2 = "asked (SearchFaces (ph_path p)) ?w1"
  have det: "detectFaces env (ph_path p) w = (Inr dr, ?w1)"
    using assms(3) by (simp add: detectFaces_def)
  have sea: "searchFaces env (ph_path p) ?w1 = (Inr sr, ?w2)"
    using assms(6) by (simp add: searchFaces_def asked_def)
  have u2: "users ?w2 = users w" by (simp add: asked_def)
  obtain w3 new where
    r: "processMatches env (ph_event p) ev pid ms p ?w2
          = (Inr (p\<lparr>detectedFaces := detectedFaces p @ map matchedFace ?ms'\<rparr>), w3)"
    and k: "photos w3 = photos ?w2"
    and c: "calls w3 = calls ?w2 @ map (\<lambda>m. CreateNotification (taggedNotification (ph_event p) ev pid m)) ?ms'"
    and n: "notifications w3 = notifications ?w2 @ new"
    and d: "map notification_data new = map (taggedNotification (ph_event p) ev pid) ?ms'"
    using processMatches_accepted[OF assms(8), of "ph_event p" ev pid ms p ?w2] unfolding u2 by blast
  let ?done = "snd (photo_save env pid
      ((p\<lparr>detectedFaces := detectedFaces p @ map matchedFace ?ms'\<rparr>)\<lparr>isProcessed := True\<rparr>) w3)"
  consider (none) "FaceMatches sr = None" "ms = []"
    | (empty) "FaceMatches sr = Some []" "ms = []"
    | (some) "FaceMatches sr = Some ms" "ms \<noteq> []"
    using assms(7) by (cases "FaceMatches sr") auto
  then have run: "processPhoto env pid w = ?done"
  proof cases
    case none
    have "w3 = ?w2" using r by (simp add: none processMatches.simps)
    then show ?thesis using assms(1,2,4,5) by (simp add: processPhoto_def det sea none)
  next
    case empty
    have "w3 = ?w2" using r by (simp add: empty processMatches.simps)
    then show ?thesis using assms(1,2,4,5) by (simp add: processPhoto_def det sea empty)
  next
    case some
    show ?thesis using assms(1,2,4,5) by (simp add: processPhoto_def det sea some r)
  qed
  have fin: "processPhoto env pid w = asked (SavePhoto pid ?p') (w3\<lparr>photos := (photos w3)(pid \<mapsto> ?p')\<rparr>)"
    using assms(8) by (simp add: run photo_save_accepted)
  have 0: "(\<forall>m\<in>set ms. users w (ExternalImageId (Face m)) \<noteq> None) \<longrightarrow> ?ms' = ms"
    by (simp add: filter_id_conv)
  have 1: "photos (processPhoto env pid w) = (photos w)(pid \<mapsto> ?p')"
    using k by (simp add: fin asked_def)
  have 2: "\<exists>new. notifications (processPhoto env pid w) = notifications w @ new \<and>
                   map notification_data new = map (taggedNotification (ph_event p) ev pid) ?ms'"
    using n d by (simp add: fin asked_def)
  have 3: "calls (processPhoto env pid w) = calls w @ [DetectFaces (ph_path p), SearchFaces (ph_path p)]
                         @ map (\<lambda>m. CreateNotification (taggedNotification (ph_event p) ev pid m)) ?ms'
                         @ [SavePhoto pid ?p']"
    using c by (simp add: fin asked_def)
  show ?thesis unfolding Let_def using 0 1 2 3 by blast
qed

text \<open>What the pushed face holds: no key of Rekognition's bounding box is a path of the schema.\<close>

lemma matchedFace_stored:
  "matchedFace m =
     \<lparr>faceId = FaceId (Face m), df_user = ExternalImageId (Face m),
      df_boundingBox = \<lparr>sb_width = None, sb_height = None, sb_left = None, sb_top = None\<rparr>,
      confidence = Similarity m\<rparr>"
  by (simp add: matchedFace_def cast_boundingBox_def boundingBox_object_def)

text \<open>
  C1 does not hold of the code in what a recorded face carries. Let the photo and its
  event exist, let detection report at least one face, let the search answer with the
  matches \<open>ms\<close> (none when \<^verbatim>\<open>FaceMatches\<close> is missing), and let the store accept
  every write. Write \<open>ms'\<close> for the matches of \<open>ms\<close> whose external identity is a
  user, in the order of \<open>ms\<close>. Then the photo is stored with \<^verbatim>\<open>isProcessed\<close> true
  and one more face per match of \<open>ms'\<close>, in order, with the face id, the user and the
  similarity of the match, but with no bounding box: its \<^verbatim>\<open>width\<close>, \<^verbatim>\<open>height\<close>,
  \<^verbatim>\<open>left\<close> and \<^verbatim>\<open>top\<close> are all missing, whatever box the match has. One
  notification is created per match of \<open>ms'\<close>, in order, of type \<^verbatim>\<open>photo_tagged\<close>,
  addressed to the matched user and naming the event and the photo.
\<close>

theorem processPhoto_stores_no_bounding_box:
  assumes "photos w pid = Some p" and "events w (ph_event p) = Some ev"
    and "rekognition_detectFaces env (clock w) (ph_path p) = Some dr"
    and "FaceDetails dr = Some fds" and "fds \<noteq> []"
    and "rekognition_searchFacesByImage env (Suc (clock w)) (ph_path p) = Some sr"
    and "ms = (case FaceMatches sr of None \<Rightarrow> [] | Some xs \<Rightarrow> xs)"
    and "\<forall>t. store_write env t = None"
  shows "let ms' = filter (\<lambda>m. users w (ExternalImageId (Face m)) \<noteq> None) ms;
             w' = processPhoto env pid w
         in photos w' =
              (photos w)(pid \<mapsto> p\<lparr>detectedFaces := detectedFaces p @
                  map (\<lambda>m. \<lparr>faceId = FaceId (Face m), df_user = ExternalImageId (Face m),
                            df_boundingBox = \<lparr>sb_width = None, sb_height = None,
                                               sb_left = None, sb_top = None\<rparr>,
                            confidence = Similarity m\<rparr>) ms',
                isProcessed := True\<rparr>) \<and>
            (\<exists>new. notifications w' = notifications w @ new \<and>
               map notification_data new =
                 map (\<lambda>m. \<lparr>d_recipient = Some (ExternalImageId (Face m)), d_email = None,
                           d_type = ''photo_tagged'', d_title = ''You were recognized in a photo'',
                           d_message = ''You were recognized in a photo from the event: '' @ ev_name ev,
                           d_relatedEvent = Some (ph_event p), d_relatedPhoto = Some pid\<rparr>) ms')"
proof -
  have mf: "map matchedFace xs =
      map (\<lambda>m. \<lparr>faceId = FaceId (Face m), df_user = ExternalImageId (Face m),
                 df_boundingBox = \<lparr>sb_width = None, sb_height = None,
                                    sb_left = None, sb_top = None\<rparr>,
                 confidence = Similarity m\<rparr>) xs" for xs
    by (simp add: matchedFace_stored)
  have tn: "map (taggedNotification (ph_event p) ev pid) xs =
      map (\<lambda>m. \<lparr>d_recipient = Some (ExternalImageId (Face m)), d_email = None,
                 d_type = ''photo_tagged'', d_title = ''You were recognized in a photo'',
                 d_message = ''You were recognized in a photo from the event: '' @ ev_name ev,
                 d_relatedEvent = Some (ph_event p), d_relatedPhoto = Some pid\<rparr>) xs" for xs
    by (simp add: taggedNotification_def)
  from processPhoto_run[OF assms] show ?thesis
    unfolding Let_def mf tn by blast
qed

text \<open>
  C9. Let the photo and its event exist and let detection report no face (an empty
  \<^verbatim>\<open>FaceDetails\<close>, or none). Then the pipeline makes two calls and no other: the
  detection, and one save of the photo with \<^verbatim>\<open>isProcessed\<close> true and its faces
  untouched; there is no search and no notification. The faces stored for the photo
  are those it had (none, for a photo just uploaded), and when the store accepts the
  write the stored photo is the one with \<^verbatim>\<open>isProcessed\<close> true.
\<close>

theorem processPhoto_no_faces:
  assumes "photos w pid = Some p" and "events w (ph_event p) = Some ev"
    and "rekognition_detectFaces env (clock w) (ph_path p) = Some dr"
    and "FaceDetails dr = None \<or> FaceDetails dr = Some []"
  shows "calls (processPhoto env pid w)
           = calls w @ [DetectFaces (ph_path p), SavePhoto pid (p\<lparr>isProcessed := True\<rparr>)] \<and>
         notifications (processPhoto env pid w) = notifications w \<and>
         (\<forall>p'. photos (processPhoto env pid w) pid = Some p' \<longrightarrow> detectedFaces p' = detectedFaces p) \<and>
         (store_write env (Suc (clock w)) = None \<longrightarrow>
            photos (processPhoto env pid w) = (photos w)(pid \<mapsto> p\<lparr>isProcessed := True\<rparr>))"
proof -
  let ?w1 = "asked (DetectFaces (ph_path p)) w"
  have det: "detectFaces env (ph_path p) w = (Inr dr, ?w1)"
    using assms(3) by (simp add: detectFaces_def)
  have run: "processPhoto env pid w = snd (photo_save env pid (p\<lparr>isProcessed := True\<rparr>) ?w1)"
    using assms(1,2,4) by (auto simp: processPhoto_def det)
  show ?thesis
    using assms(1) by (auto simp: run photo_save_def asked_def split: option.splits)
qed


text \<open>
  Photo \<open>p1\<close>: one face detected, two matches, of which the first is user \<open>u2\<close>, with
  a box of width 1/4, height 1/2, left 1/10 and top 1/5, and the second is no user.
\<close>

theorem processPhoto_stores_no_bounding_box_witness:
  "photos example_world ''p1'' = Some example_photo \<and>
   events example_world (ph_event example_photo) = Some example_event1 \<and>
   rekognition_detectFaces example_env (clock example_world) (ph_path example_photo)
     = Some \<lparr>FaceDetails = Some [example_box]\<rparr> \<and>
   [example_box] \<noteq> [] \<and>
   rekognition_searchFacesByImage example_env (Suc (clock example_world)) (ph_path example_photo)
     = Some \<lparr>FaceMatches = Some [example_match1, example_match2]\<rparr> \<and>
   (\<forall>t. store_write example_env t = None) \<and>
   example_match1 =
     \<lparr>Similarity = 95,
      Face = \<lparr>FaceId = ''f1'', ExternalImageId = ''u2'',
               BoundingBox = \<lparr>bb_Width = 1/4, bb_Height = 1/2, bb_Left = 1/10, bb_Top = 1/5\<rparr>\<rparr>\<rparr> \<and>
   photos (processPhoto example_env ''p1'' example_world) ''p1''
     = Some \<lparr>ph_path = ''uploads/p1.jpg'', ph_event = ''e1'', uploader = ''u1'',
             detectedFaces =
               [\<lparr>faceId = ''f1'', df_user = ''u2'',
                 df_boundingBox = \<lparr>sb_width = None, sb_height = None, sb_left = None, sb_top = None\<rparr>,
                 confidence = 95\<rparr>],
             isProcessed = True\<rparr> \<and>
   map notification_data (notifications (processPhoto example_env ''p1'' example_world))
     = [\<lparr>d_recipient = Some ''u2'', d_email = None, d_type = ''photo_tagged'',
         d_title = ''You were recognized in a photo'',
         d_message = ''You were recognized in a photo from the event: Party'',
         d_relatedEvent = Some ''e1'', d_relatedPhoto = Some ''p1''\<rparr>]"
proof -
  have h1: "photos example_world ''p1'' = Some example_photo" by (simp add: example_world_def)
  have h2: "events example_world (ph_event example_photo) = Some example_event1"
    by (simp add: example_world_def example_photo_def)
  have h3: "rekognition_detectFaces example_env (clock example_world) (ph_path example_photo)
     = Some \<lparr>FaceDetails = Some [example_box]\<rparr>"
    by (simp add: example_env_def)
  have h4: "FaceDetails \<lparr>FaceDetails = Some [example_box]\<rparr> = Some [example_box]" by simp
  have h5: "[example_box] \<noteq> []" by simp
  have h6: "rekognition_searchFacesByImage example_env (Suc (clock example_world)) (ph_path example_photo)
     = Some \<lparr>FaceMatches = Some [example_match1, example_match2]\<rparr>"
    by (simp add: example_env_def)
  have h7: "[example_match1, example_match2]
     = (case FaceMatches \<lparr>FaceMatches = Some [example_match1, example_match2]\<rparr> of None \<Rightarrow> [] | Some xs \<Rightarrow> xs)"
    by simp
  have h8: "\<forall>t. store_write example_env t = None" by (simp add: example_env_def)
  have m1: "example_match1 =
     \<lparr>Similarity = 95,
      Face = \<lparr>FaceId = ''f1'', ExternalImageId = ''u2'',
               BoundingBox = \<lparr>bb_Width = 1/4, bb_Height = 1/2, bb_Left = 1/10, bb_Top = 1/5\<rparr>\<rparr>\<rparr>"
    by (simp add: example_match1_def example_box_def)
  have f: "filter (\<lambda>m. users example_world (ExternalImageId (Face m)) \<noteq> None) [example_match1, example_match2]
     = [example_match1]"
    by (simp add: example_world_def example_match1_def example_match2_def)
  have e: "ph_event example_photo = ''e1'' \<and> notifications example_world = [] \<and>
      ev_name example_event1 = ''Party''"
    by (simp add: example_photo_def example_world_def example_event1_def)
  note t = processPhoto_stores_no_bounding_box[OF h1 h2 h3 h4 h5 h6 h7 h8, unfolded Let_def f]
  have a: "photos (processPhoto example_env ''p1'' example_world) ''p1''
     = Some \<lparr>ph_path = ''uploads/p1.jpg'', ph_event = ''e1'', uploader = ''u1'',
             detectedFaces =
               [\<lparr>faceId = ''f1'', df_user = ''u2'',
                 df_boundingBox = \<lparr>sb_width = None, sb_height = None, sb_left = None, sb_top = None\<rparr>,
                 confidence = 95\<rparr>],
             isProcessed = True\<rparr>"
    using t by (simp add: example_photo_def example_match1_def)
  have b: "map notification_data (notifications (processPhoto example_env ''p1'' example_world))
     = [\<lparr>d_recipient = Some ''u2'', d_email = None, d_type = ''photo_tagged'',
         d_title = ''You were recognized in a photo'',
         d_message = ''You were recognized in a photo from the event: Party'',
         d_relatedEvent = Some ''e1'', d_relatedPhoto = Some ''p1''\<rparr>]"
    using t e by (auto simp: example_match1_def)
  show ?thesis using h1 h2 h3 h5 h6 h8 m1 a b by blast
qed

text \<open>Photo \<open>p1\<close> with a registry that sees no face.\<close>

theorem processPhoto_no_faces_witness:
  "photos example_world ''p1'' = Some example_photo \<and>
   events example_world (ph_event example_photo) = Some example_event1 \<and>
   rekognition_detectFaces (example_env\<lparr>rekognition_detectFaces := \<lambda>t p. Some \<lparr>FaceDetails = Some []\<rparr>\<rparr>)
       (clock example_world) (ph_path example_photo) = Some \<lparr>FaceDetails = Some []\<rparr> \<and>
   store_write (example_env\<lparr>rekognition_detectFaces := \<lambda>t p. Some \<lparr>FaceDetails = Some []\<rparr>\<rparr>)
       (Suc (clock example_world)) = None \<and>
   calls (processPhoto (example_env\<lparr>rekognition_detectFaces := \<lambda>t p. Some \<lparr>FaceDetails = Some []\<rparr>\<rparr>)
            ''p1'' example_world)
     = [DetectFaces ''uploads/p1.jpg'', SavePhoto ''p1'' (example_photo\<lparr>isProcessed := True\<rparr>)] \<and>
   notifications (processPhoto (example_env\<lparr>rekognition_detectFaces := \<lambda>t p. Some \<lparr>FaceDetails = Some []\<rparr>\<rparr>)
            ''p1'' example_world) = [] \<and>
   photos (processPhoto (example_env\<lparr>rekognition_detectFaces := \<lambda>t p. Some \<lparr>FaceDetails = Some []\<rparr>\<rparr>)
            ''p1'' example_world) ''p1''
     = Some \<lparr>ph_path = ''uploads/p1.jpg'', ph_event = ''e1'', uploader = ''u1'',
             detectedFaces = [], isProcessed = True\<rparr>"
proof -
  let ?env = "example_env\<lparr>rekognition_detectFaces := \<lambda>t p. Some \<lparr>FaceDetails = Some []\<rparr>\<rparr>"
  have h1: "photos example_world ''p1'' = Some example_photo" by (simp add: example_world_def)
  have h2: "events example_world (ph_event example_photo) = Some example_event1"
    by (simp add: example_world_def example_photo_def)
  have h3: "rekognition_detectFaces ?env (clock example_world) (ph_path example_photo)
     = Some \<lparr>FaceDetails = Some []\<rparr>"
    by simp
  have h4: "FaceDetails \<lparr>FaceDetails = Some []\<rparr> = None \<or> FaceDetails \<lparr>FaceDetails = Some []\<rparr> = Some []"
    by simp
  have h5: "store_write ?env (Suc (clock example_world)) = None" by (simp add: example_env_def)
  have e: "ph_path example_photo = ''uploads/p1.jpg'' \<and> notifications example_world = [] \<and>
      calls example_world = []"
    by (simp add: example_photo_def example_world_def)
  note t = processPhoto_no_faces[OF h1 h2 h3 h4]
  have a: "calls (processPhoto ?env ''p1'' example_world)
     = [DetectFaces ''uploads/p1.jpg'', SavePhoto ''p1'' (example_photo\<lparr>isProcessed := True\<rparr>)]"
    using t e by simp
  have b: "notifications (processPhoto ?env ''p1'' example_world) = []" using t e by simp
  have c: "photos (processPhoto ?env ''p1'' example_world) ''p1''
     = Some \<lparr>ph_path = ''uploads/p1.jpg'', ph_event = ''e1'', uploader = ''u1'',
             detectedFaces = [], isProcessed = True\<rparr>"
    using t h5 by (simp add: example_photo_def)
  show ?thesis using h1 h2 h3 h5 a b c by blast
qed

end
